theory Spec2Isabelle
  imports Complex_Main
begin

section \<open>Numbers\<close>

text \<open>
  The program computes on JavaScript numbers, which are IEEE 754 double-precision
  values. Two embeddings are used.

  Where a claim is about a convention or holds up to a tolerance (the confidence
  intervals, the descriptive statistics, \<open>erf\<close> and \<open>normalCDF\<close>), a number is a
  real and every operation of the source is the operation of the same name on
  \<^typ>\<open>real\<close>; rounding, overflow to \<open>Infinity\<close> and \<open>NaN\<close> are outside that
  part of the model.

  Where a claim is about the exact value the program returns (\<open>factorial\<close>,
  \<open>comb\<close>) or about a comparison with a rounded value (the Poisson sampler), a number
  is a \<open>jsnum\<close>: a finite double given by its real value, \<open>Infinity\<close>,
  \<open>-Infinity\<close> or \<open>NaN\<close>. The function \<open>fl\<close> rounds a real to the nearest double,
  ties to the even significand: a double other than 0 is \<open>m * 2^e\<close> with an integer
  \<open>m\<close>, \<open>|m| < 2^53\<close> and \<open>-1074 \<le> e\<close>, and a result of magnitude \<open>2^1024\<close> or
  more after rounding is infinite. The arithmetic operations \<open>dadd\<close>, \<open>dsub\<close>,
  \<open>dmul\<close> and \<open>ddiv\<close> round the exact result with \<open>fl\<close>, as IEEE 754 prescribes,
  and \<open>dless\<close> is the comparison \<open><\<close>. The sign of zero is not modelled.
  \<open>Math.exp\<close> is the exponential rounded to the nearest double (for an argument
  \<open>x\<close> with \<open>|x| < 2^-28\<close> the fdlibm routine returns the rounded \<open>1 + x\<close>, which is
  the same double whenever \<open>|x| \<le> 2^-54\<close>).

  Loop counters that the source starts at an integer literal and steps by \<open>i++\<close> are
  natural numbers, compared with the bound the way the source compares them; such a
  counter is a double without rounding as long as it is below \<open>2^53\<close>.
\<close>

datatype jsnum = Num real | PosInf | NegInf | NaN

definition round_half_even :: "real \<Rightarrow> int" where
  "round_half_even x =
     (let f = \<lfloor>x\<rfloor>; d = x - of_int f
      in if d < 1 / 2 then f
         else if d > 1 / 2 then f + 1
         else if even f then f else f + 1)"

definition fl :: "real \<Rightarrow> jsnum" where
  "fl x =
     (if x = 0 then Num 0
      else
        let e = max (\<lfloor>log 2 \<bar>x\<bar>\<rfloor> - 52) (- 1074);
            y = of_int (round_half_even (x / 2 powr of_int e)) * 2 powr of_int e
        in if \<bar>y\<bar> \<ge> 2 ^ 1024 then (if x > 0 then PosInf else NegInf) else Num y)"

fun dmul :: "jsnum \<Rightarrow> jsnum \<Rightarrow> jsnum" where
  "dmul (Num a) (Num b) = fl (a * b)"
| "dmul NaN y = NaN"
| "dmul x NaN = NaN"
| "dmul (Num a) PosInf = (if a > 0 then PosInf else if a < 0 then NegInf else NaN)"
| "dmul (Num a) NegInf = (if a > 0 then NegInf else if a < 0 then PosInf else NaN)"
| "dmul PosInf (Num b) = (if b > 0 then PosInf else if b < 0 then NegInf else NaN)"
| "dmul NegInf (Num b) = (if b > 0 then NegInf else if b < 0 then PosInf else NaN)"
| "dmul PosInf PosInf = PosInf"
| "dmul PosInf NegInf = NegInf"
| "dmul NegInf PosInf = NegInf"
| "dmul NegInf NegInf = PosInf"

fun ddiv :: "jsnum \<Rightarrow> jsnum \<Rightarrow> jsnum" where
  "ddiv (Num a) (Num b) =
     (if b = 0 then (if a > 0 then PosInf else if a < 0 then NegInf else NaN) else fl (a / b))"
| "ddiv NaN y = NaN"
| "ddiv x NaN = NaN"
| "ddiv (Num a) PosInf = Num 0"
| "ddiv (Num a) NegInf = Num 0"
| "ddiv PosInf (Num b) = (if b \<ge> 0 then PosInf else NegInf)"
| "ddiv NegInf (Num b) = (if b \<ge> 0 then NegInf else PosInf)"
| "ddiv PosInf PosInf = NaN"
| "ddiv PosInf NegInf = NaN"
| "ddiv NegInf PosInf = NaN"
| "ddiv NegInf NegInf = NaN"

fun dsub :: "jsnum \<Rightarrow> jsnum \<Rightarrow> jsnum" where
  "dsub (Num a) (Num b) = fl (a - b)"
| "dsub NaN y = NaN"
| "dsub x NaN = NaN"
| "dsub (Num a) PosInf = NegInf"
| "dsub (Num a) NegInf = PosInf"
| "dsub PosInf (Num b) = PosInf"
| "dsub NegInf (Num b) = NegInf"
| "dsub PosInf PosInf = NaN"
| "dsub PosInf NegInf = PosInf"
| "dsub NegInf PosInf = NegInf"
| "dsub NegInf NegInf = NaN"

fun dless :: "jsnum \<Rightarrow> jsnum \<Rightarrow> bool" where
  "dless (Num a) (Num b) = (a < b)"
| "dless NaN y = False"
| "dless x NaN = False"
| "dless (Num a) PosInf = True"
| "dless (Num a) NegInf = False"
| "dless PosInf y = False"
| "dless NegInf (Num b) = True"
| "dless NegInf PosInf = True"
| "dless NegInf NegInf = False"

definition Math_exp :: "real \<Rightarrow> jsnum" where
  "Math_exp x = fl (exp x)"

fun dadd :: "jsnum \<Rightarrow> jsnum \<Rightarrow> jsnum" where
  "dadd (Num a) (Num b) = fl (a + b)"
| "dadd NaN y = NaN"
| "dadd x NaN = NaN"
| "dadd (Num a) PosInf = PosInf"
| "dadd (Num a) NegInf = NegInf"
| "dadd PosInf (Num b) = PosInf"
| "dadd NegInf (Num b) = NegInf"
| "dadd PosInf PosInf = PosInf"
| "dadd PosInf NegInf = NaN"
| "dadd NegInf PosInf = NaN"
| "dadd NegInf NegInf = NegInf"

section \<open>Special functions (\<open>src/server.js\<close>)\<close>

subsection \<open>\<open>factorial\<close>\<close>

text \<open>
  \<^verbatim>\<open>
  function factorial(n) {
    if (n < 0) return 0;
    if (n === 0 || n === 1) return 1;
    let result = 1;
    for (let i = 2; i <= n; i++) { result *= i; }
    return result;
  }
  \<close>
  The product \<open>result\<close> is a double: each \<open>result *= i\<close> rounds.
\<close>

function factorial_loop :: "nat \<Rightarrow> real \<Rightarrow> jsnum \<Rightarrow> jsnum" where
  "factorial_loop i n result =
     (if real i \<le> n then factorial_loop (Suc i) n (dmul result (Num (real i))) else result)"
  by pat_completeness auto
termination
proof (relation "measure (\<lambda>(i, n, result). nat \<lfloor>n\<rfloor> + 1 - i)")
  fix i :: nat and n :: real and result :: jsnum
  assume "real i \<le> n"
  then have "i \<le> nat \<lfloor>n\<rfloor>" by (rule le_nat_floor)
  then show "((Suc i, n, dmul result (Num (real i))), (i, n, result))
               \<in> measure (\<lambda>(i, n, result). nat \<lfloor>n\<rfloor> + 1 - i)"
    by simp
qed simp

definition factorial :: "real \<Rightarrow> jsnum" where
  "factorial n =
     (if n < 0 then Num 0
      else if n = 0 \<or> n = 1 then Num 1
      else factorial_loop 2 n (Num 1))"

subsection \<open>\<open>comb\<close>\<close>

text \<open>
  \<^verbatim>\<open>
  function comb(n, k) {
    if (k < 0 || k > n) return 0;
    if (k === 0 || k === n) return 1;
    k = Math.min(k, n - k); // take advantage of symmetry
    let c = 1;
    for (let i = 0; i < k; i++) { c = c * (n - i) / (i + 1); }
    return c;
  }
  \<close>
  Every operation of the loop body rounds: the difference \<open>n - i\<close>, the product with
  \<open>c\<close>, the sum \<open>i + 1\<close> and the quotient. \<open>Math.min\<close> returns \<open>NaN\<close> when an
  argument is \<open>NaN\<close>, and the loop condition \<open>i < k\<close> is false for a \<open>k\<close> that is
  \<open>NaN\<close> or \<open>-Infinity\<close>.
\<close>

function comb_loop :: "nat \<Rightarrow> real \<Rightarrow> real \<Rightarrow> jsnum \<Rightarrow> jsnum" where
  "comb_loop i k n c =
     (if real i < k then
        comb_loop (Suc i) k n
          (ddiv (dmul c (dsub (Num n) (Num (real i)))) (dadd (Num (real i)) (Num 1)))
      else c)"
  by pat_completeness auto
termination
proof (relation "measure (\<lambda>(i, k, n, c). nat \<lceil>k\<rceil> - i)")
  fix i :: nat and k n :: real and c :: jsnum
  assume "real i < k"
  then have "int i < \<lceil>k\<rceil>" by (simp add: less_ceiling_iff)
  then show "((Suc i, k, n,
                ddiv (dmul c (dsub (Num n) (Num (real i)))) (dadd (Num (real i)) (Num 1))),
              (i, k, n, c))
               \<in> measure (\<lambda>(i, k, n, c). nat \<lceil>k\<rceil> - i)"
    by simp
qed simp

definition comb :: "real \<Rightarrow> real \<Rightarrow> jsnum" where
  "comb n k =
     (if k < 0 \<or> k > n then Num 0
      else if k = 0 \<or> k = n then Num 1
      else
        (case dsub (Num n) (Num k) of
           Num d \<Rightarrow> comb_loop 0 (min k d) n (Num 1)
         | PosInf \<Rightarrow> comb_loop 0 k n (Num 1)
         | NegInf \<Rightarrow> Num 1
         | NaN \<Rightarrow> Num 1))"

subsection \<open>\<open>erf\<close> and \<open>normalCDF\<close>\<close>

text \<open>
  \<^verbatim>\<open>
  function erf(x) {
    const a1 = 0.254829592; const a2 = -0.284496736; const a3 = 1.421413741;
    const a4 = -1.453152027; const a5 = 1.061405429; const p = 0.3275911;
    const sign = x >= 0 ? 1 : -1;
    x = Math.abs(x);
    const t = 1.0 / (1.0 + p * x);
    const y = 1.0 - (((((a5 * t + a4) * t) + a3) * t + a2) * t + a1) * t * Math.exp(-x * x);
    return sign * y;
  }
  function normalCDF(x, mu = 0, sigma = 1) {
    const z = (x - mu) / sigma;
    return 0.5 * (1 + erf(z / Math.sqrt(2)));
  }
  \<close>
\<close>

definition erf :: "real \<Rightarrow> real" where
  "erf x0 =
     (let a1 = 0.254829592; a2 = - 0.284496736; a3 = 1.421413741;
          a4 = - 1.453152027; a5 = 1.061405429; p = 0.3275911;
          sign = (if x0 \<ge> 0 then 1 else - 1);
          x = \<bar>x0\<bar>;
          t = 1.0 / (1.0 + p * x);
          y = 1.0 - (((((a5 * t + a4) * t) + a3) * t + a2) * t + a1) * t * exp (- x * x)
      in sign * y)"

definition normalCDF :: "real \<Rightarrow> real \<Rightarrow> real \<Rightarrow> real" where
  "normalCDF x mu sigma =
     (let z = (x - mu) / sigma
      in 0.5 * (1 + erf (z / sqrt 2)))"

section \<open>The Poisson sampler (\<open>src/server.js\<close>)\<close>

text \<open>
  \<^verbatim>\<open>
  function generatePoisson(lambda, count = 1000) {
    const data = [];
    for (let i = 0; i < count; i++) {
      let k = 0;
      let p = 1;
      const l = Math.exp(-lambda);
      while (p > l) { k++; p *= Math.random(); }
      data.push(k - 1);
    }
    return data;
  }
  \<close>
  \<open>Math.random\<close> reads a global source of numbers. The source is the sequence
  \<open>random\<close> of the values it returns, and the state \<open>s\<close> is the number of values
  read so far. The inner loop need not end for every sequence, so both loops return an
  option, \<open>None\<close> standing for a run that does not return. The counter \<open>k\<close> is an
  integer. The threshold \<open>l\<close> and the product \<open>p\<close> are doubles: \<open>Math.exp\<close> and
  each \<open>p *= Math.random()\<close> round.
\<close>

partial_function (option) poisson_while ::
  "(nat \<Rightarrow> real) \<Rightarrow> jsnum \<Rightarrow> int \<Rightarrow> jsnum \<Rightarrow> nat \<Rightarrow> (int \<times> nat) option" where
  "poisson_while random l k p s =
     (if dless l p then poisson_while random l (k + 1) (dmul p (Num (random s))) (Suc s)
      else Some (k, s))"

partial_function (option) generatePoisson_loop ::
  "(nat \<Rightarrow> real) \<Rightarrow> real \<Rightarrow> real \<Rightarrow> nat \<Rightarrow> int list \<Rightarrow> nat \<Rightarrow> (int list \<times> nat) option" where
  "generatePoisson_loop random lambda count i data s =
     (if real i < count then
        (case poisson_while random (Math_exp (- lambda)) 0 (Num 1) s of
           None \<Rightarrow> None
         | Some (k, s') \<Rightarrow> generatePoisson_loop random lambda count (Suc i) (data @ [k - 1]) s')
      else Some (data, s))"

definition generatePoisson ::
  "(nat \<Rightarrow> real) \<Rightarrow> real \<Rightarrow> real \<Rightarrow> nat \<Rightarrow> (int list \<times> nat) option" where
  "generatePoisson random lambda count s = generatePoisson_loop random lambda count 0 [] s"

section \<open>Confidence intervals (\<open>src/client/components\<close>)\<close>

text \<open>
  Two React components compute intervals for a mean difference:
  \<open>handleCalculate\<close> of \<open>PairedMeanCI.tsx\<close> and \<open>calculate\<close> of the
  two-sample component in \<open>AIDataGenerator.tsx\<close>. The model starts where the text
  fields have been parsed: the samples are lists of numbers, and a variance field is
  \<open>None\<close> when \<open>parseFloat\<close> gave \<open>NaN\<close>. A thrown \<open>Error\<close>, which the
  handlers catch and store as the error message, is the left summand of the result.

  Both components import \<open>getZCriticalValue\<close> and
  \<open>calculateTwoSampleConfidenceInterval\<close> from \<open>../utils/statistics\<close>, which is
  not part of the sources at hand; the two functions are parameters of the model.
  The interval type is the union \<open>'two-sided' | 'one-sided-lower' | 'one-sided-upper'\<close>;
  a bound is a number or one of \<open>-Infinity\<close>, \<open>Infinity\<close>. The field
  \<open>method\<close> of a result is \<open>methodLabel\<close> here; the label of
  \<open>PairedMeanCI.tsx\<close> line 93 is a Chinese string literal and has a constructor of
  its own.
\<close>

datatype ConfidenceIntervalType = TwoSided | OneSidedLower | OneSidedUpper

datatype bound = NegInfinity | Finite real | Infinity

datatype two_sample_method = Pooled | Welch | Paired

datatype method_label = PairedZKnownVarianceLabel | Label string

record ci_interval =
  lower :: bound
  upper :: bound
  marginOfError :: real
  methodLabel :: method_label
  criticalValue :: real
  meanDiff :: real

record paired_result = ci_interval +
  intervalType :: ConfidenceIntervalType

record two_sample_result = paired_result +
  mean1 :: real
  mean2 :: real
  n1 :: nat
  n2 :: nat

type_synonym z_critical = "real \<Rightarrow> real"
type_synonym two_sample_ci =
  "real list \<Rightarrow> real list \<Rightarrow> real \<Rightarrow> two_sample_method \<Rightarrow> ConfidenceIntervalType \<Rightarrow> string + ci_interval"

text \<open>
  Both components compute the differences and their mean with the same two expressions:
  \<^verbatim>\<open>
  const differences = before.map((x, i) => x - after[i]);
  const meanDiff = differences.reduce((sum, val) => sum + val, 0) / differences.length;
  \<close>
  and the two-sample component computes \<open>mean1\<close> and \<open>mean2\<close> by the same
  \<open>reduce\<close>. The index \<open>i\<close> is in range of \<open>after\<close> wherever the expression is
  reached, since the lengths have been compared before.
\<close>

definition pair_differences :: "real list \<Rightarrow> real list \<Rightarrow> real list" where
  "pair_differences before after = map (\<lambda>(i, x). x - after ! i) (enumerate 0 before)"

definition mean_of :: "real list \<Rightarrow> real" where
  "mean_of xs = foldl (\<lambda>sum val. sum + val) 0 xs / real (length xs)"

definition PairedMeanCI_handleCalculate ::
  "z_critical \<Rightarrow> two_sample_ci \<Rightarrow> real list \<Rightarrow> real list \<Rightarrow> real \<Rightarrow> ConfidenceIntervalType
     \<Rightarrow> bool \<Rightarrow> real option \<Rightarrow> string + paired_result" where
  "PairedMeanCI_handleCalculate getZCriticalValue calculateTwoSampleConfidenceInterval
       before after confidence itype knownVariance populationVariance =
     (if length before = 0 \<or> length after = 0 then Inl ''Data cannot be empty''
      else if length before \<noteq> length after then
        Inl ''Before and after datasets must have the same length''
      else if knownVariance then
        (case populationVariance of
           None \<Rightarrow> Inl ''Population variance must be a positive number''
         | Some variance \<Rightarrow>
             if variance \<le> 0 then Inl ''Population variance must be a positive number''
             else
               let differences = pair_differences before after;
                   meanDiff = mean_of differences;
                   standardError = sqrt variance / sqrt (real (length differences));
                   criticalValue =
                     (if itype = TwoSided then getZCriticalValue confidence
                      else getZCriticalValue (2 * confidence - 1));
                   marginOfError = criticalValue * standardError;
                   (lower, upper) =
                     (if itype = TwoSided then
                        (Finite (meanDiff - marginOfError), Finite (meanDiff + marginOfError))
                      else if itype = OneSidedLower then
                        (NegInfinity, Finite (meanDiff + marginOfError))
                      else
                        (Finite (meanDiff - marginOfError), Infinity))
               in Inr \<lparr>lower = lower, upper = upper, marginOfError = marginOfError,
                        methodLabel = PairedZKnownVarianceLabel, criticalValue = criticalValue,
                        meanDiff = meanDiff, intervalType = itype\<rparr>)
      else
        (case calculateTwoSampleConfidenceInterval before after confidence Paired itype of
           Inl message \<Rightarrow> Inl message
         | Inr ciResult \<Rightarrow>
             Inr \<lparr>lower = lower ciResult, upper = upper ciResult,
                  marginOfError = marginOfError ciResult, methodLabel = methodLabel ciResult,
                  criticalValue = criticalValue ciResult, meanDiff = meanDiff ciResult,
                  intervalType = itype\<rparr>))"

definition TwoSampleCI_calculate ::
  "z_critical \<Rightarrow> two_sample_ci \<Rightarrow> real list \<Rightarrow> real list \<Rightarrow> real \<Rightarrow> two_sample_method
     \<Rightarrow> ConfidenceIntervalType \<Rightarrow> bool \<Rightarrow> real option \<Rightarrow> real option
     \<Rightarrow> string + two_sample_result" where
  "TwoSampleCI_calculate getZCriticalValue calculateTwoSampleConfidenceInterval
       dataset1 dataset2 confidenceLevel meth itype knownVariance populationVariance1
       populationVariance2 =
     (if length dataset1 = 0 \<or> length dataset2 = 0 then Inl ''Dataset cannot be empty''
      else if meth = Paired \<and> length dataset1 \<noteq> length dataset2 then
        Inl ''Paired samples must have the same length''
      else if knownVariance then
        (case populationVariance1 of
           None \<Rightarrow> Inl ''Population variance for dataset 1 must be a positive number''
         | Some var1 \<Rightarrow>
             if var1 \<le> 0 then
               Inl ''Population variance for dataset 1 must be a positive number''
             else
               (case populationVariance2 of
                  None \<Rightarrow> Inl ''Population variance for dataset 2 must be a positive number''
                | Some var2 \<Rightarrow>
                    if var2 \<le> 0 then
                      Inl ''Population variance for dataset 2 must be a positive number''
                    else if meth = Paired then
                      let differences = pair_differences dataset1 dataset2;
                          meanDiff = mean_of differences;
                          varDiff = var1 + var2;
                          standardError = sqrt (varDiff / real (length differences));
                          zCritical =
                            (if itype = TwoSided then getZCriticalValue confidenceLevel
                             else getZCriticalValue (2 * confidenceLevel - 1));
                          marginOfError = zCritical * standardError;
                          (lower, upper) =
                            (if itype = TwoSided then
                               (Finite (meanDiff - marginOfError), Finite (meanDiff + marginOfError))
                             else if itype = OneSidedLower then
                               (Finite (meanDiff - marginOfError), Infinity)
                             else if itype = OneSidedUpper then
                               (NegInfinity, Finite (meanDiff + marginOfError))
                             else (NegInfinity, Infinity));
                          mean1 = mean_of dataset1;
                          mean2 = mean_of dataset2
                      in Inr \<lparr>lower = lower, upper = upper, marginOfError = marginOfError,
                               methodLabel = Label ''Paired Samples Z-test (Known Variance)'',
                               criticalValue = zCritical, meanDiff = meanDiff,
                               intervalType = itype, mean1 = mean1, mean2 = mean2,
                               n1 = length dataset1, n2 = length dataset2\<rparr>
                    else
                      let mean1 = mean_of dataset1;
                          mean2 = mean_of dataset2;
                          meanDiff = mean1 - mean2;
                          standardError =
                            sqrt (var1 / real (length dataset1) + var2 / real (length dataset2));
                          zCritical =
                            (if itype = TwoSided then getZCriticalValue confidenceLevel
                             else getZCriticalValue (2 * confidenceLevel - 1));
                          marginOfError = zCritical * standardError;
                          (lower, upper) =
                            (if itype = TwoSided then
                               (Finite (meanDiff - marginOfError), Finite (meanDiff + marginOfError))
                             else if itype = OneSidedLower then
                               (Finite (meanDiff - marginOfError), Infinity)
                             else if itype = OneSidedUpper then
                               (NegInfinity, Finite (meanDiff + marginOfError))
                             else (NegInfinity, Infinity))
                      in Inr \<lparr>lower = lower, upper = upper, marginOfError = marginOfError,
                               methodLabel = Label (''Two Sample Z-test (''
                                  @ (if meth = Pooled then ''Pooled'' else ''Welch'')
                                  @ '') with Known Variance''),
                               criticalValue = zCritical, meanDiff = meanDiff,
                               intervalType = itype, mean1 = mean1, mean2 = mean2,
                               n1 = length dataset1, n2 = length dataset2\<rparr>))
      else
        (case calculateTwoSampleConfidenceInterval dataset1 dataset2 confidenceLevel meth itype of
           Inl message \<Rightarrow> Inl message
         | Inr ciResult \<Rightarrow>
             let mean1 = mean_of dataset1;
                 mean2 = mean_of dataset2
             in Inr \<lparr>lower = lower ciResult, upper = upper ciResult,
                      marginOfError = marginOfError ciResult, methodLabel = methodLabel ciResult,
                      criticalValue = criticalValue ciResult, meanDiff = meanDiff ciResult,
                      intervalType = itype, mean1 = mean1, mean2 = mean2,
                      n1 = length dataset1, n2 = length dataset2\<rparr>))"

text \<open>The critical value a computation reports, if it reports a result at all.\<close>

definition critical_of :: "string + ('a ci_interval_scheme) \<Rightarrow> real option" where
  "critical_of res = (case res of Inl message \<Rightarrow> None | Inr r \<Rightarrow> Some (criticalValue r))"

text \<open>The margin of error a computation reports, if it reports a result at all.\<close>

definition margin_of :: "string + ('a ci_interval_scheme) \<Rightarrow> real option" where
  "margin_of res = (case res of Inl message \<Rightarrow> None | Inr r \<Rightarrow> Some (marginOfError r))"

subsection \<open>The one-sample interval\<close>

text \<open>
  The basic-statistics tab of \<open>AIDataGenerator.tsx\<close> computes the interval for one
  sample by the call
  \<^verbatim>\<open>
  calculateOneSampleMeanCI(data, ciOptions.confidenceLevel,
    ciOptions.knownVariance && ciOptions.populationVariance > 0
      ? ciOptions.populationVariance : undefined)
  \<close>
  and copies the fields of the result. The third argument of the call is the definition
  below, \<open>undefined\<close> being \<open>None\<close>.
\<close>

definition BasicStatisticsTab_knownVariance :: "bool \<Rightarrow> real \<Rightarrow> real option" where
  "BasicStatisticsTab_knownVariance knownVariance populationVariance =
     (if knownVariance \<and> populationVariance > 0 then Some populationVariance else None)"

text \<open>
  Modelled from the spec: \<open>calculateOneSampleMeanCI\<close> is imported from
  \<open>../utils/statistics\<close>, which is missing from the sources. The spec (section 4.4)
  gives the one-sample estimator: the standard error is \<open>s / sqrt n\<close>, or
  \<open>sqrt (sigma^2 / n)\<close> if the variance is known; with a known variance the normal (z)
  critical value is used, unconditionally, otherwise the t critical value; for a
  one-sided interval at confidence level \<open>c\<close> the critical value is the one of the
  two-sided interval at level \<open>2c - 1\<close>; the margin is the critical value times the
  standard error; the interval is \<open>[estimate - margin, estimate + margin]\<close>,
  \<open>[estimate - margin, +\<infinity>)\<close> for one-sided-lower and
  \<open>(-\<infinity>, estimate + margin]\<close> for one-sided-upper; an empty sample and a
  supplied variance that is not strictly positive are validation errors. The result
  has the fields of the spec's confidence-interval result, the estimate in
  \<open>meanDiff\<close> (``mean or mean-difference''). The two critical-value functions (both
  two-sided, as \<open>getZCriticalValue\<close> is used in the components above; the t one also
  gets the sample) and the sample standard deviation \<open>s\<close> are parameters, and so is
  the interval type, which the call of the tab does not pass.
\<close>

definition calculateOneSampleMeanCI ::
  "z_critical \<Rightarrow> (real \<Rightarrow> real list \<Rightarrow> real) \<Rightarrow> (real list \<Rightarrow> real) \<Rightarrow> ConfidenceIntervalType
     \<Rightarrow> real list \<Rightarrow> real \<Rightarrow> real option \<Rightarrow> string + paired_result" where
  "calculateOneSampleMeanCI getZCriticalValue getTCriticalValue sampleStd itype
       samp confidenceLevel knownVar =
     (if length samp = 0 then Inl ''ValidationError''
      else if (case knownVar of None \<Rightarrow> False | Some sigma2 \<Rightarrow> sigma2 \<le> 0) then
        Inl ''ValidationError''
      else
        let estimate = mean_of samp;
            level = (if itype = TwoSided then confidenceLevel else 2 * confidenceLevel - 1);
            standardError =
              (case knownVar of
                 None \<Rightarrow> sampleStd samp / sqrt (real (length samp))
               | Some sigma2 \<Rightarrow> sqrt (sigma2 / real (length samp)));
            critical =
              (case knownVar of
                 None \<Rightarrow> getTCriticalValue level samp
               | Some sigma2 \<Rightarrow> getZCriticalValue level);
            margin = critical * standardError
        in Inr \<lparr>lower = (if itype = OneSidedUpper then NegInfinity else Finite (estimate - margin)),
                 upper = (if itype = OneSidedLower then Infinity else Finite (estimate + margin)),
                 marginOfError = margin,
                 methodLabel = (case knownVar of None \<Rightarrow> Label ''t'' | Some sigma2 \<Rightarrow> Label ''z''),
                 criticalValue = critical, meanDiff = estimate, intervalType = itype\<rparr>)"

section \<open>Descriptive statistics (\<open>src/server.js\<close>)\<close>

text \<open>
  \<^verbatim>\<open>
  function calculateStats(data) {
    const n = data.length;
    const mean = data.reduce((a, b) => a + b, 0) / n;
    const sortedData = [...data].sort((a, b) => a - b);
    const median = n % 2 === 0 ? (sortedData[n/2 - 1] + sortedData[n/2]) / 2
                               : sortedData[Math.floor(n/2)];
    const variance = data.reduce((a, b) => a + Math.pow(b - mean, 2), 0) / n;
    const stdDev = Math.sqrt(variance);
    const min = sortedData[0];
    const max = sortedData[n - 1];
    const q1 = sortedData[Math.floor(n * 0.25)];
    const q3 = sortedData[Math.floor(n * 0.75)];
    return { mean, median, variance, stdDev, min, max, q1, q3, count: n };
  }
  \<close>
  The argument is a reference to an array that the caller owns, and
  \<open>Array.prototype.sort\<close> sorts the array it is called on in place. Arrays therefore
  live in a store, from references to contents; the spread \<open>[...data]\<close> allocates a
  new array with the same contents, and \<open>sort\<close> updates the store at the reference it
  is given and returns that reference. The comparator \<open>(a, b) => a - b\<close> orders numbers
  ascending. \<open>calculateStats\<close> returns the store it leaves behind together with the
  statistics.

  For an empty array every field of the result is \<open>NaN\<close> or \<open>undefined\<close>, which the
  reals do not have; the model returns \<open>None\<close> there. (The route
  \<open>/api/stats/describe\<close> answers an empty array with status 400 before the call.) For
  \<open>n > 0\<close> every index read below is in range. With \<open>n\<close> even, \<open>n/2\<close> is the
  integer quotient. The fields \<open>min\<close> and \<open>max\<close> are \<open>min_value\<close> and
  \<open>max_value\<close>.
\<close>

type_synonym ref = nat

record js_heap =
  arrays :: "ref \<Rightarrow> real list"
  next_ref :: ref

definition array_spread :: "js_heap \<Rightarrow> ref \<Rightarrow> js_heap \<times> ref" where
  "array_spread h a =
     (h\<lparr>arrays := (arrays h)(next_ref h := arrays h a), next_ref := Suc (next_ref h)\<rparr>,
      next_ref h)"

definition array_sort :: "js_heap \<Rightarrow> ref \<Rightarrow> js_heap \<times> ref" where
  "array_sort h a = (h\<lparr>arrays := (arrays h)(a := sort (arrays h a))\<rparr>, a)"

record stats =
  mean :: real
  median :: real
  variance :: real
  stdDev :: real
  min_value :: real
  max_value :: real
  q1 :: real
  q3 :: real
  count :: nat

definition calculateStats :: "js_heap \<Rightarrow> ref \<Rightarrow> js_heap \<times> stats option" where
  "calculateStats h data =
     (let n = length (arrays h data);
          mean = foldl (\<lambda>a b. a + b) 0 (arrays h data) / real n;
          (h1, copy) = array_spread h data;
          (h2, sortedData) = array_sort h1 copy;
          median =
            (if n mod 2 = 0
             then (arrays h2 sortedData ! (n div 2 - 1) + arrays h2 sortedData ! (n div 2)) / 2
             else arrays h2 sortedData ! nat \<lfloor>real n / 2\<rfloor>);
          variance = foldl (\<lambda>a b. a + (b - mean) ^ 2) 0 (arrays h2 data) / real n;
          stdDev = sqrt variance;
          min = arrays h2 sortedData ! 0;
          max = arrays h2 sortedData ! (n - 1);
          q1 = arrays h2 sortedData ! nat \<lfloor>real n * 0.25\<rfloor>;
          q3 = arrays h2 sortedData ! nat \<lfloor>real n * 0.75\<rfloor>
      in (h2,
          if n = 0 then None
          else Some \<lparr>mean = mean, median = median, variance = variance, stdDev = stdDev,
                     min_value = min, max_value = max, q1 = q1, q3 = q3, count = n\<rparr>))"

section \<open>The distribution routes (\<open>src/server.js\<close>)\<close>

text \<open>
  The handlers of \<open>POST /api/distributions/:name/calculate\<close> and
  \<open>POST /api/distributions/:name/generate\<close> check the request, look the distribution
  up in the catalogue, validate the parameters and then dispatch on the name and the
  evaluation type. A reply is either a status with an error message (\<open>res.status(..).json({error})\<close>)
  or the JSON object of a successful answer.

  The request body is modelled where it is well-typed: \<open>parameters\<close> is absent or an
  object whose values are numbers, \<open>x\<close> is absent (\<open>undefined\<close>) or a number,
  \<open>type\<close> and \<open>count\<close> are absent (and then take their defaults \<open>'pdf'\<close> and
  \<open>1000\<close>) or a string and a number. The field \<open>name\<close> of a catalogue entry is
  \<open>d_name\<close>, its field \<open>parameters\<close> is \<open>d_parameters\<close>.

  The numeric routines the handlers dispatch to (\<open>normalPDF\<close>, ..., \<open>gammaPDF\<close>,
  the samplers and \<open>calculateStats\<close>) are passed to the model as a record \<open>lib\<close>
  of functions with an arbitrary result type: what is verified here is which routine,
  if any, a request reaches, and a statement proved for every \<open>lib\<close> does not depend
  on what the routines compute.
\<close>

record distribution =
  d_name :: string
  displayName :: string
  description :: string
  d_parameters :: "string list"
  constraints :: "(string \<times> string) list"

definition availableDistributions :: "distribution list" where
  "availableDistributions =
     [\<lparr>d_name = ''normal'', displayName = ''Normal Distribution'',
        description = ''Gaussian distribution characterized by mean and standard deviation'',
        d_parameters = [''mu'', ''sigma''],
        constraints = [(''mu'', ''any''), (''sigma'', ''>0'')]\<rparr>,
      \<lparr>d_name = ''uniform'', displayName = ''Uniform Distribution'',
        description = ''Constant probability over a specified range'',
        d_parameters = [''a'', ''b''],
        constraints = [(''a'', ''any''), (''b'', ''>a'')]\<rparr>,
      \<lparr>d_name = ''binomial'', displayName = ''Binomial Distribution'',
        description = ''Discrete probability of successes in a fixed number of trials'',
        d_parameters = [''n'', ''p''],
        constraints = [(''n'', ''integer>0''), (''p'', ''0<=p<=1'')]\<rparr>,
      \<lparr>d_name = ''poisson'', displayName = ''Poisson Distribution'',
        description = ''Discrete probability of a given number of events occurring'',
        d_parameters = [''lambda''],
        constraints = [(''lambda'', ''>0'')]\<rparr>,
      \<lparr>d_name = ''exponential'', displayName = ''Exponential Distribution'',
        description = ''Continuous probability describing the time between events'',
        d_parameters = [''lambda''],
        constraints = [(''lambda'', ''>0'')]\<rparr>,
      \<lparr>d_name = ''gamma'', displayName = ''Gamma Distribution'',
        description = ''Two-parameter family of continuous probability distributions'',
        d_parameters = [''shape'', ''rate''],
        constraints = [(''shape'', ''>0''), (''rate'', ''>0'')]\<rparr>]"

definition field :: "(string \<rightharpoonup> real) \<Rightarrow> string \<Rightarrow> real" where
  "field parameters key = the (parameters key)"

definition validateParameters :: "distribution \<Rightarrow> (string \<rightharpoonup> real) \<Rightarrow> bool" where
  "validateParameters distribution parameters =
     (if \<not> list_all (\<lambda>param. parameters param \<noteq> None) (d_parameters distribution) then False
      else if d_name distribution = ''normal'' then field parameters ''sigma'' > 0
      else if d_name distribution = ''uniform'' then field parameters ''b'' > field parameters ''a''
      else if d_name distribution = ''binomial'' then
        field parameters ''n'' = of_int \<lfloor>field parameters ''n''\<rfloor> \<and> field parameters ''n'' > 0
        \<and> field parameters ''p'' \<ge> 0 \<and> field parameters ''p'' \<le> 1
      else if d_name distribution = ''poisson'' \<or> d_name distribution = ''exponential'' then
        field parameters ''lambda'' > 0
      else if d_name distribution = ''gamma'' then
        field parameters ''shape'' > 0 \<and> field parameters ''rate'' > 0
      else True)"

record 'r numerics =
  call_normalPDF :: "real \<Rightarrow> real \<Rightarrow> real \<Rightarrow> 'r"
  call_normalCDF :: "real \<Rightarrow> real \<Rightarrow> real \<Rightarrow> 'r"
  call_uniformPDF :: "real \<Rightarrow> real \<Rightarrow> real \<Rightarrow> 'r"
  call_uniformCDF :: "real \<Rightarrow> real \<Rightarrow> real \<Rightarrow> 'r"
  call_binomialPMF :: "real \<Rightarrow> real \<Rightarrow> real \<Rightarrow> 'r"
  call_binomialCDF :: "real \<Rightarrow> real \<Rightarrow> real \<Rightarrow> 'r"
  call_poissonPMF :: "real \<Rightarrow> real \<Rightarrow> 'r"
  call_poissonCDF :: "real \<Rightarrow> real \<Rightarrow> 'r"
  call_exponentialPDF :: "real \<Rightarrow> real \<Rightarrow> 'r"
  call_exponentialCDF :: "real \<Rightarrow> real \<Rightarrow> 'r"
  call_gammaPDF :: "real \<Rightarrow> real \<Rightarrow> real \<Rightarrow> 'r"

record calculate_body =
  calc_parameters :: "(string \<rightharpoonup> real) option"
  calc_x :: "real option"
  calc_type :: "string option"

record 'r calculate_json =
  distribution_name :: string
  parameters_sent :: "string \<rightharpoonup> real"
  x_sent :: real
  type_sent :: string
  result :: 'r

definition calculate_route ::
  "'r numerics \<Rightarrow> string \<Rightarrow> calculate_body \<Rightarrow> (nat \<times> string) + 'r calculate_json" where
  "calculate_route lib name body =
     (let type = (case calc_type body of None \<Rightarrow> ''pdf'' | Some t \<Rightarrow> t) in
      case calc_parameters body of
        None \<Rightarrow> Inl (400, ''Missing parameters or x value'')
      | Some parameters \<Rightarrow>
         (case calc_x body of
            None \<Rightarrow> Inl (400, ''Missing parameters or x value'')
          | Some x \<Rightarrow>
             (case find (\<lambda>d. d_name d = name) availableDistributions of
                None \<Rightarrow> Inl (404, ''Distribution not found'')
              | Some distribution \<Rightarrow>
                  let respond = (\<lambda>r. Inr \<lparr>distribution_name = name, parameters_sent = parameters,
                                             x_sent = x, type_sent = type, result = r\<rparr>) in
                  if \<not> validateParameters distribution parameters then
                    Inl (400, ''Invalid parameters'')
                  else if name = ''normal'' then
                    (if type = ''pdf'' then
                       respond (call_normalPDF lib x (field parameters ''mu'') (field parameters ''sigma''))
                     else if type = ''cdf'' then
                       respond (call_normalCDF lib x (field parameters ''mu'') (field parameters ''sigma''))
                     else Inl (400, ''Invalid calculation type''))
                  else if name = ''uniform'' then
                    (if type = ''pdf'' then
                       respond (call_uniformPDF lib x (field parameters ''a'') (field parameters ''b''))
                     else if type = ''cdf'' then
                       respond (call_uniformCDF lib x (field parameters ''a'') (field parameters ''b''))
                     else Inl (400, ''Invalid calculation type''))
                  else if name = ''binomial'' then
                    (if type = ''pmf'' then
                       respond (call_binomialPMF lib x (field parameters ''n'') (field parameters ''p''))
                     else if type = ''cdf'' then
                       respond (call_binomialCDF lib x (field parameters ''n'') (field parameters ''p''))
                     else Inl (400, ''Invalid calculation type''))
                  else if name = ''poisson'' then
                    (if type = ''pmf'' then
                       respond (call_poissonPMF lib x (field parameters ''lambda''))
                     else if type = ''cdf'' then
                       respond (call_poissonCDF lib x (field parameters ''lambda''))
                     else Inl (400, ''Invalid calculation type''))
                  else if name = ''exponential'' then
                    (if type = ''pdf'' then
                       respond (call_exponentialPDF lib x (field parameters ''lambda''))
                     else if type = ''cdf'' then
                       respond (call_exponentialCDF lib x (field parameters ''lambda''))
                     else Inl (400, ''Invalid calculation type''))
                  else if name = ''gamma'' then
                    (if type = ''pdf'' then
                       respond (call_gammaPDF lib x (field parameters ''shape'') (field parameters ''rate''))
                     else Inl (400, ''Only PDF calculation available for gamma distribution''))
                  else Inl (400, ''Calculation not implemented for this distribution''))))"

record ('d, 's) samplers =
  call_generateNormal :: "real \<Rightarrow> real \<Rightarrow> real \<Rightarrow> 'd"
  call_generateUniform :: "real \<Rightarrow> real \<Rightarrow> real \<Rightarrow> 'd"
  call_generateBinomial :: "real \<Rightarrow> real \<Rightarrow> real \<Rightarrow> 'd"
  call_generatePoisson :: "real \<Rightarrow> real \<Rightarrow> 'd"
  call_generateExponential :: "real \<Rightarrow> real \<Rightarrow> 'd"
  call_calculateStats :: "'d \<Rightarrow> 's"

record generate_body =
  gen_parameters :: "(string \<rightharpoonup> real) option"
  gen_count :: "real option"

record ('d, 's) generate_json =
  gen_distribution :: string
  gen_parameters_sent :: "string \<rightharpoonup> real"
  count_sent :: real
  data_sent :: 'd
  stats_sent :: 's

definition generate_route ::
  "('d, 's) samplers \<Rightarrow> string \<Rightarrow> generate_body \<Rightarrow> (nat \<times> string) + ('d, 's) generate_json" where
  "generate_route lib name body =
     (let count = (case gen_count body of None \<Rightarrow> 1000 | Some c \<Rightarrow> c) in
      case gen_parameters body of
        None \<Rightarrow> Inl (400, ''Missing parameters or invalid count'')
      | Some parameters \<Rightarrow>
          if count \<le> 0 then Inl (400, ''Missing parameters or invalid count'')
          else
            (case find (\<lambda>d. d_name d = name) availableDistributions of
               None \<Rightarrow> Inl (404, ''Distribution not found'')
             | Some distribution \<Rightarrow>
                 let respond = (\<lambda>data. Inr \<lparr>gen_distribution = name,
                                              gen_parameters_sent = parameters, count_sent = count,
                                              data_sent = data,
                                              stats_sent = call_calculateStats lib data\<rparr>) in
                 if \<not> validateParameters distribution parameters then
                   Inl (400, ''Invalid parameters'')
                 else if name = ''normal'' then
                   respond (call_generateNormal lib (field parameters ''mu'')
                              (field parameters ''sigma'') count)
                 else if name = ''uniform'' then
                   respond (call_generateUniform lib (field parameters ''a'')
                              (field parameters ''b'') count)
                 else if name = ''binomial'' then
                   respond (call_generateBinomial lib (field parameters ''n'')
                              (field parameters ''p'') count)
                 else if name = ''poisson'' then
                   respond (call_generatePoisson lib (field parameters ''lambda'') count)
                 else if name = ''exponential'' then
                   respond (call_generateExponential lib (field parameters ''lambda'') count)
                 else Inl (400, ''Generation not implemented for this distribution'')))"

text \<open>
  The evaluation types the specification's table of distributions lists for each
  distribution: density and cumulative probability, the density being \<open>pdf\<close> for the
  continuous and \<open>pmf\<close> for the discrete distributions, and the density only for
  gamma. This definition follows the specification, not the code.
\<close>

definition spec_supported_types :: "string \<Rightarrow> string list" where
  "spec_supported_types name =
     (if name = ''normal'' \<or> name = ''uniform'' \<or> name = ''exponential'' then [''pdf'', ''cdf'']
      else if name = ''binomial'' \<or> name = ''poisson'' then [''pmf'', ''cdf'']
      else if name = ''gamma'' then [''pdf'']
      else [])"

text \<open>
  The evaluation type and the count of a request after the defaults of the
  destructuring, and the status of a reply (200 is what \<open>res.json\<close> sends).
\<close>

definition requested_type :: "calculate_body \<Rightarrow> string" where
  "requested_type body = (case calc_type body of None \<Rightarrow> ''pdf'' | Some t \<Rightarrow> t)"

definition requested_count :: "generate_body \<Rightarrow> real" where
  "requested_count body = (case gen_count body of None \<Rightarrow> 1000 | Some c \<Rightarrow> c)"

definition status_of :: "(nat \<times> string) + 'a \<Rightarrow> nat" where
  "status_of reply = (case reply of Inl (status, message) \<Rightarrow> status | Inr json \<Rightarrow> 200)"

section \<open>Properties\<close>

subsection \<open>Rounding to a double\<close>

lemma rhe_of_int: "round_half_even (of_int z) = z"
  by (simp add: round_half_even_def)

lemma rhe_nonneg: "0 \<le> x \<Longrightarrow> 0 \<le> round_half_even x"
  by (simp add: round_half_even_def Let_def)

lemma rhe_le_floor_Suc: "round_half_even y \<le> \<lfloor>y\<rfloor> + 1"
  by (simp add: round_half_even_def Let_def)

lemma rhe_round_up:
  "\<lfloor>y\<rfloor> = f \<Longrightarrow> 1 / 2 \<le> y - of_int f \<Longrightarrow> odd f \<Longrightarrow> round_half_even y = f + 1"
  by (auto simp: round_half_even_def Let_def)

lemma fl_eval:
  assumes x: "0 < x" and e: "- 1074 \<le> e"
    and lo: "2 ^ 52 * 2 powr of_int e \<le> x" and hi: "x < 2 ^ 53 * 2 powr of_int e"
  shows "fl x =
           (if (2::real) ^ 1024 \<le> of_int (round_half_even (x / 2 powr of_int e)) * 2 powr of_int e
            then PosInf
            else Num (of_int (round_half_even (x / 2 powr of_int e)) * 2 powr of_int e))"
proof -
  have p52: "(2::real) powr of_int (52 + e) = 2 ^ 52 * 2 powr of_int e"
    by (simp add: powr_add)
  have p53: "(2::real) powr (of_int (52 + e) + 1) = 2 ^ 53 * 2 powr of_int e"
    by (simp add: powr_add)
  have "\<lfloor>log 2 x\<rfloor> = 52 + e"
    using floor_log_eq_powr_iff [of x 2 "52 + e"] x lo hi p52 p53 by simp
  then have m: "max (\<lfloor>log 2 x\<rfloor> - 52) (- 1074) = e"
    using e by simp
  have ax: "\<bar>x\<bar> = x" using x by simp
  have nz: "(x = 0) = False" using x by simp
  have px: "(x > 0) = True" using x by simp
  define y :: real where "y = of_int (round_half_even (x / 2 powr of_int e)) * 2 powr of_int e"
  have "0 \<le> x / 2 powr of_int e" using x by simp
  then have "0 \<le> round_half_even (x / 2 powr of_int e)" by (rule rhe_nonneg)
  then have y0: "0 \<le> y" unfolding y_def by simp
  then have ay: "\<bar>y\<bar> = y" by simp
  have "fl x = (if \<bar>y\<bar> \<ge> 2 ^ 1024 then (if x > 0 then PosInf else NegInf) else Num y)"
    unfolding fl_def ax m Let_def y_def nz by (simp only: if_False)
  then have "fl x = (if 2 ^ 1024 \<le> y then PosInf else Num y)"
    unfolding ay px by (simp only: if_True)
  then show ?thesis unfolding y_def .
qed

lemma fl_eval_up:
  assumes "0 < x" and "2 ^ 52 * 2 ^ k \<le> x" and "x < 2 ^ 53 * 2 ^ k"
  shows "fl x =
           (if (2::real) ^ 1024 \<le> of_int (round_half_even (x / 2 ^ k)) * 2 ^ k then PosInf
            else Num (of_int (round_half_even (x / 2 ^ k)) * 2 ^ k))"
proof -
  have p: "(2::real) powr of_int (int k) = 2 ^ k"
    by (simp add: powr_realpow)
  have e: "- 1074 \<le> int k" by simp
  have lo: "2 ^ 52 * 2 powr of_int (int k) \<le> x" unfolding p by (rule assms(2))
  have hi: "x < 2 ^ 53 * 2 powr of_int (int k)" unfolding p by (rule assms(3))
  show ?thesis
    using fl_eval [OF assms(1) e lo hi] unfolding p .
qed

lemma fl_eval_down:
  assumes "0 < x" and "k \<le> 1074" and "2 ^ 52 \<le> x * 2 ^ k" and "x * 2 ^ k < 2 ^ 53"
  shows "fl x = Num (of_int (round_half_even (x * 2 ^ k)) / 2 ^ k)"
proof -
  have p: "(2::real) powr of_int (- int k) = 1 / 2 ^ k"
    by (simp add: powr_minus powr_realpow divide_inverse)
  have k0: "(0::real) < 2 ^ k" by simp
  have lo: "2 ^ 52 * 2 powr of_int (- int k) \<le> x"
    unfolding p using assms(3) k0 by (simp add: field_simps)
  have hi: "x < 2 ^ 53 * 2 powr of_int (- int k)"
    unfolding p using assms(4) k0 by (simp add: field_simps)
  have e: "- 1074 \<le> - int k" using assms(2) by simp
  have q: "x / 2 powr of_int (- int k) = x * 2 ^ k"
    unfolding p by simp
  have "\<lfloor>x * 2 ^ k\<rfloor> < 2 ^ 53"
    using assms(4) by (simp add: floor_less_iff)
  then have r: "round_half_even (x * 2 ^ k) \<le> 2 ^ 53"
    using rhe_le_floor_Suc [of "x * 2 ^ k"] by linarith
  have "(of_int (round_half_even (x * 2 ^ k)) :: real) \<le> of_int (2 ^ 53)"
    using r by (simp only: of_int_le_iff)
  then have r': "(of_int (round_half_even (x * 2 ^ k)) :: real) \<le> 2 ^ 53" by simp
  have "(1::real) \<le> 2 ^ k" by simp
  then have "(of_int (round_half_even (x * 2 ^ k)) :: real) * 1 \<le> 2 ^ 53 * 2 ^ k"
    using r' by (intro mult_mono) simp_all
  then have "of_int (round_half_even (x * 2 ^ k)) / (2::real) ^ k \<le> 2 ^ 53"
    using k0 by (simp add: field_simps)
  also have "\<dots> < (2::real) ^ 1024" by simp
  finally have small: "\<not> (2::real) ^ 1024 \<le> of_int (round_half_even (x * 2 ^ k)) * (1 / 2 ^ k)"
    by simp
  show ?thesis
    using fl_eval [OF assms(1) e lo hi] small unfolding q p by simp
qed

lemma fl_exact:
  assumes m: "0 < m" "m < 2 ^ 53" and small: "of_int m * 2 ^ k < (2::real) ^ 1024"
  shows "fl (of_int m * 2 ^ k) = Num (of_int m * 2 ^ k)"
proof -
  define x :: real where "x = of_int m * 2 ^ k"
  define L where "L = \<lfloor>log 2 x\<rfloor>"
  have m1: "(1::real) \<le> of_int m" using m(1) by simp
  have k1: "(1::real) \<le> 2 ^ k" by simp
  have "(1::real) * 1 \<le> of_int m * 2 ^ k" using m1 k1 by (intro mult_mono) simp_all
  then have x1: "1 \<le> x" by (simp add: x_def)
  then have x0: "0 < x" by simp
  have L0: "0 \<le> L" unfolding L_def using x1 by simp
  have b: "2 powr of_int L \<le> x \<and> x < 2 powr (of_int L + 1)"
    using floor_log_eq_powr_iff [of x 2 L] x0 by (simp add: L_def)
  have "(of_int m :: real) < of_int (2 ^ 53)"
    using m(2) by (simp only: of_int_less_iff)
  then have "(of_int m :: real) < 2 ^ 53" by simp
  then have "x < 2 ^ 53 * 2 ^ k" unfolding x_def by simp
  also have "\<dots> = 2 powr of_int (53 + int k)"
    by (simp add: powr_add powr_realpow)
  finally have xk: "x < 2 powr of_int (53 + int k)" .
  have "2 powr of_int L < (2::real) powr of_int (53 + int k)"
    using b xk by linarith
  then have "real_of_int L < real_of_int (53 + int k)" by (simp only: powr_less_cancel_iff one_less_numeral_iff semiring_norm)
  then have Lk: "L < 53 + int k" by (simp only: of_int_less_iff)
  define e where "e = L - 52"
  have e: "- 1074 \<le> e" "e \<le> int k" using L0 Lk by (simp_all add: e_def)
  have pe: "(2::real) ^ 52 * 2 powr of_int e = 2 powr of_int L"
  proof -
    have "(2::real) powr of_int L = 2 powr (52 + of_int e)" by (simp add: e_def)
    also have "\<dots> = 2 powr 52 * 2 powr of_int e" by (rule powr_add)
    finally show ?thesis by simp
  qed
  have lo: "2 ^ 52 * 2 powr of_int e \<le> x" unfolding pe using b by simp
  have "(2::real) ^ 53 * 2 powr of_int e = 2 * (2 ^ 52 * 2 powr of_int e)" by simp
  also have "\<dots> = 2 powr (of_int L + 1)" unfolding pe by (simp add: powr_add)
  finally have pe': "(2::real) ^ 53 * 2 powr of_int e = 2 powr (of_int L + 1)" .
  have hi: "x < 2 ^ 53 * 2 powr of_int e" unfolding pe' using b by simp
  define j where "j = nat (int k - e)"
  have kj: "real k = real j + real_of_int e" using e(2) by (simp add: j_def)
  have "(2::real) ^ k = 2 powr real k" by (simp add: powr_realpow)
  also have "\<dots> = 2 powr real j * 2 powr of_int e" unfolding kj by (rule powr_add)
  also have "2 powr real j = (2::real) ^ j" by (simp add: powr_realpow)
  finally have kk: "(2::real) ^ k = 2 ^ j * 2 powr of_int e" .
  have pos: "(0::real) < 2 powr of_int e" by simp
  have q: "x / 2 powr of_int e = of_int (m * 2 ^ j)"
    unfolding x_def kk using pos by simp
  have y: "of_int (round_half_even (x / 2 powr of_int e)) * 2 powr of_int e = x"
    unfolding q rhe_of_int unfolding x_def kk by simp
  have "fl x = Num x"
    using fl_eval [OF x0 e(1) lo hi] small unfolding y by (simp add: x_def)
  then show ?thesis by (simp add: x_def)
qed

lemma fl_nat: "a \<le> 2 ^ 53 \<Longrightarrow> fl (real a) = Num (real a)"
proof -
  assume a: "a \<le> 2 ^ 53"
  consider "a = 0" | "0 < a" "a < 2 ^ 53" | "a = 2 ^ 53" using a by force
  then show ?thesis
  proof cases
    case 1
    then show ?thesis by (simp add: fl_def)
  next
    case 2
    have p: "0 < int a" using 2(1) by simp
    have "int a < int (2 ^ 53)" using 2(2) by (simp only: of_nat_less_iff)
    then have q: "int a < 2 ^ 53" by simp
    have "real a < real (2 ^ 53)" using 2(2) by (simp only: of_nat_less_iff)
    then have "real a < 2 ^ 1024" by simp
    then have r: "of_int (int a) * 2 ^ 0 < (2::real) ^ 1024" by simp
    from fl_exact [OF p q r] show ?thesis by simp
  next
    case 3
    have "fl (of_int 1 * 2 ^ 53) = Num (of_int 1 * 2 ^ 53)"
      by (rule fl_exact) simp_all
    then show ?thesis using 3 by simp
  qed
qed

lemma Math_exp_tiny:
  assumes "0 \<le> lambda" and "lambda \<le> 1 / 2 ^ 54"
  shows "Math_exp (- lambda) = Num 1"
proof -
  define x where "x = exp (- lambda)"
  have up: "x \<le> 1" unfolding x_def using assms(1) by simp
  have "1 - lambda \<le> x" unfolding x_def by (rule exp_minus_ge)
  then have lo: "1 - 1 / 2 ^ 54 \<le> x" using assms(2) by linarith
  show ?thesis
  proof (cases "x = 1")
    case True
    have "fl (of_int 1 * 2 ^ 0) = Num (of_int 1 * 2 ^ 0)" by (rule fl_exact) simp_all
    then show ?thesis using True by (simp add: Math_exp_def x_def)
  next
    case False
    then have lt: "x < 1" using up by simp
    have x0: "0 < x" unfolding x_def by simp
    define y where "y = x * 2 ^ 53"
    have ylo: "2 ^ 53 - 1 / 2 \<le> y" unfolding y_def using lo by simp
    have yhi: "y < 2 ^ 53" unfolding y_def using lt by simp
    have a: "2 ^ 52 \<le> x * 2 ^ 53" using ylo unfolding y_def by simp
    have b: "x * 2 ^ 53 < 2 ^ 53" using yhi unfolding y_def by simp
    have f: "\<lfloor>y\<rfloor> = 2 ^ 53 - 1"
    proof (rule floor_unique)
      show "of_int (2 ^ 53 - 1) \<le> y" using ylo by simp
      show "y < of_int (2 ^ 53 - 1) + 1" using yhi by simp
    qed
    have d: "1 / 2 \<le> y - of_int (2 ^ 53 - 1)" using ylo by simp
    have o: "odd (2 ^ 53 - 1 :: int)" by simp
    have "round_half_even y = 2 ^ 53 - 1 + 1" using f d o by (rule rhe_round_up)
    then have r: "round_half_even (x * 2 ^ 53) = 2 ^ 53" by (simp add: y_def)
    have "fl x = Num (of_int (round_half_even (x * 2 ^ 53)) / 2 ^ 53)"
      by (rule fl_eval_down [OF x0 _ a b]) simp
    then show ?thesis unfolding r by (simp add: Math_exp_def x_def)
  qed
qed

lemma fl_small: "numeral w \<le> (2::real) ^ 53 \<Longrightarrow> fl (numeral w) = Num (numeral w)"
proof -
  assume "numeral w \<le> (2::real) ^ 53"
  then have "real (numeral w) \<le> real (2 ^ 53)" by simp
  then have "(numeral w :: nat) \<le> 2 ^ 53" by (simp only: of_nat_le_iff)
  then have "fl (real (numeral w)) = Num (real (numeral w))" by (rule fl_nat)
  then show ?thesis by simp
qed

lemma fl_one: "fl 1 = Num 1"
  using fl_nat [of 1] by simp

lemma fl_zero: "fl 0 = Num 0"
  by (simp add: fl_def)

subsection \<open>\<open>factorial\<close>\<close>

declare factorial_loop.simps [simp del] comb_loop.simps [simp del]

lemma fact_18: "fact 18 = (6402373705728000 :: nat)"
  by (simp add: fact_numeral)

lemma fl_fact: "n \<le> 22 \<Longrightarrow> fl (fact n) = Num (fact n)"
proof -
  assume n: "n \<le> 22"
  consider "n \<le> 18" | "n = 19" | "n = 20" | "n = 21" | "n = 22" using n by linarith
  then show ?thesis
  proof cases
    case 1
    then have "(fact n :: nat) \<le> fact 18" by (rule fact_mono)
    then have "(fact n :: nat) \<le> 2 ^ 53" unfolding fact_18 by simp
    then have "fl (real (fact n)) = Num (real (fact n))" by (rule fl_nat)
    then show ?thesis by simp
  next
    case 2
    have "fl (of_int 1856156927625 * 2 ^ 16) = Num (of_int 1856156927625 * 2 ^ 16)"
      by (rule fl_exact) simp_all
    then show ?thesis unfolding 2 by (simp add: fact_numeral)
  next
    case 3
    have "fl (of_int 9280784638125 * 2 ^ 18) = Num (of_int 9280784638125 * 2 ^ 18)"
      by (rule fl_exact) simp_all
    then show ?thesis unfolding 3 by (simp add: fact_numeral)
  next
    case 4
    have "fl (of_int 194896477400625 * 2 ^ 18) = Num (of_int 194896477400625 * 2 ^ 18)"
      by (rule fl_exact) simp_all
    then show ?thesis unfolding 4 by (simp add: fact_numeral)
  next
    case 5
    have "fl (of_int 2143861251406875 * 2 ^ 19) = Num (of_int 2143861251406875 * 2 ^ 19)"
      by (rule fl_exact) simp_all
    then show ?thesis unfolding 5 by (simp add: fact_numeral)
  qed
qed

lemma factorial_loop_prefix:
  "1 \<le> i \<Longrightarrow> i \<le> j \<Longrightarrow> j \<le> 23 \<Longrightarrow> real j \<le> n + 1 \<Longrightarrow>
     factorial_loop i n (Num (fact (i - 1))) = factorial_loop j n (Num (fact (j - 1)))"
proof (induction "j - i" arbitrary: i)
  case 0
  then show ?case by simp
next
  case (Suc d)
  then have lt: "i < j" by simp
  then have le: "real i \<le> n" using Suc.prems(4) by simp
  have i22: "i \<le> 22" using lt Suc.prems(3) by simp
  obtain i' where i': "i = Suc i'" using Suc.prems(1) by (cases i) simp_all
  have "fact (i - 1) * real i = (fact i :: real)" unfolding i' by (simp add: mult.commute)
  then have "dmul (Num (fact (i - 1))) (Num (real i)) = Num (fact i)"
    using fl_fact [OF i22] by simp
  then have "factorial_loop i n (Num (fact (i - 1))) = factorial_loop (Suc i) n (Num (fact i))"
    using le by (subst factorial_loop.simps) simp
  also have "\<dots> = factorial_loop j n (Num (fact (j - 1)))"
    using Suc.hyps(1) [of "Suc i"] Suc.hyps(2) lt Suc.prems(3,4) by simp
  finally show ?case .
qed

lemma factorial_small:
  assumes "2 \<le> m" and "m \<le> 22"
  shows "factorial (real m) = Num (fact m)"
proof -
  have "factorial (real m) = factorial_loop 2 (real m) (Num (fact (2 - 1)))"
    using assms(1) by (simp add: factorial_def)
  also have "\<dots> = factorial_loop (Suc m) (real m) (Num (fact (Suc m - 1)))"
    using assms by (intro factorial_loop_prefix) simp_all
  also have "\<dots> = Num (fact m)"
    by (subst factorial_loop.simps) simp
  finally show ?thesis .
qed

lemma fl_fact_23: "fl (25852016738884976640000) = Num 25852016738884978212864"
  by (subst fl_eval_up [where k = 22]) (simp_all add: round_half_even_def)

lemma factorial_23: "factorial 23 = Num 25852016738884978212864"
proof -
  have "factorial 23 = factorial_loop 2 23 (Num (fact (2 - 1)))"
    by (simp add: factorial_def)
  also have "\<dots> = factorial_loop 23 23 (Num (fact (23 - 1)))"
    by (intro factorial_loop_prefix) simp_all
  also have "\<dots> = factorial_loop 24 23 (Num 25852016738884978212864)"
    by (subst factorial_loop.simps) (simp add: fact_numeral fl_fact_23)
  also have "\<dots> = Num 25852016738884978212864"
    by (subst factorial_loop.simps) simp
  finally show ?thesis .
qed

lemma prod_from_2_fact: "2 \<le> m \<Longrightarrow> (\<Prod>j = 2..m. real j) = fact m"
proof -
  assume m: "2 \<le> m"
  have "{1..m} = insert 1 {2..m}" using m by auto
  then have "(\<Prod>j = 1..m. real j) = (\<Prod>j = 2..m. real j)" by simp
  then show ?thesis by (simp add: fact_prod)
qed

text \<open>
  Claim C7 says that \<open>factorial(n)\<close> is the integer product \<open>2 * 3 * ... * n\<close> for every
  integer \<open>n \<ge> 2\<close>. The products up to \<open>22!\<close> are doubles; \<open>23!\<close> is
  25852016738884976640000 and is not: the last multiplication rounds, and
  \<open>factorial(23)\<close> is 25852016738884978212864.
\<close>

theorem factorial_23_counterexample:
  "factorial 23 = Num 25852016738884978212864 \<and> factorial 23 \<noteq> Num (fact 23)"
  by (simp add: factorial_23 fact_numeral)

text \<open>
  Claim C7, amended. \<open>factorial(n)\<close> returns 1 for \<open>n\<close> in \<open>{0, 1}\<close>, the integer
  product \<open>2 * 3 * ... * n\<close> for every integer \<open>n\<close> from 2 to 22, and the sentinel 0,
  without throwing, for every \<open>n < 0\<close>; in particular \<open>factorial(-1) = 0\<close>.
\<close>

theorem factorial_upto_22:
  "factorial 0 = Num 1 \<and> factorial 1 = Num 1
   \<and> (2 \<le> m \<and> m \<le> 22 \<longrightarrow>
        factorial (real m) = Num (\<Prod>j = 2..m. real j) \<and> factorial (real m) = Num (fact m))
   \<and> (n < 0 \<longrightarrow> factorial n = Num 0)
   \<and> factorial (- 1) = Num 0"
proof -
  have a: "factorial 0 = Num 1" "factorial 1 = Num 1" "factorial (- 1) = Num 0"
    by (simp_all add: factorial_def)
  have b: "n < 0 \<longrightarrow> factorial n = Num 0"
    by (simp add: factorial_def)
  have c: "2 \<le> m \<and> m \<le> 22 \<longrightarrow>
        factorial (real m) = Num (\<Prod>j = 2..m. real j) \<and> factorial (real m) = Num (fact m)"
    using factorial_small [of m] prod_from_2_fact [of m] by simp
  from a b c show ?thesis by blast
qed

theorem factorial_upto_22_witness:
  "(2::nat) \<le> 5 \<and> (5::nat) \<le> 22 \<and> factorial 5 = Num 120
   \<and> (- 3 :: real) < 0 \<and> factorial (- 3) = Num 0"
proof -
  have "fact 5 = (120 :: real)" by (simp add: fact_numeral)
  moreover have "(\<Prod>j = 2..5. real j) = fact 5" by (rule prod_from_2_fact) simp
  ultimately show ?thesis using factorial_upto_22 [of 5 "- 3"] by simp
qed

subsection \<open>\<open>comb\<close>\<close>

lemma binomial_step:
  assumes "i < N"
  shows "real (N choose i) * (real N - real i) / (real i + 1) = real (N choose Suc i)"
proof -
  obtain b where N: "N = Suc (i + b)" using assms less_iff_Suc_add by auto
  have "Suc i * (N choose Suc i) = Suc b * (N choose i)"
    unfolding N by (rule Suc_times_binomial_add)
  then have "real (Suc i * (N choose Suc i)) = real (Suc b * (N choose i))"
    by simp
  then have "(real i + 1) * real (N choose Suc i) = real (Suc b) * real (N choose i)"
    by (simp add: algebra_simps)
  moreover have "real (Suc b) = real N - real i" unfolding N by simp
  ultimately have eq: "real (N choose i) * (real N - real i) = (real i + 1) * real (N choose Suc i)"
    by (simp add: mult.commute)
  have nz: "real i + 1 \<noteq> 0" using of_nat_0_le_iff[of i, where 'a = real] by linarith
  show ?thesis unfolding eq using nz by simp
qed

lemma comb_loop_step:
  assumes l: "l < N" and lk: "real l < k"
    and bound: "(N choose l) * (N - l) \<le> 2 ^ 53"
  shows "comb_loop l k (real N) (Num (real (N choose l)))
           = comb_loop (Suc l) k (real N) (Num (real (N choose Suc l)))"
proof -
  have c1: "1 \<le> N choose l" using l by (simp add: Suc_leI)
  have d1: "1 \<le> N - l" using l by simp
  have "N - l \<le> (N choose l) * (N - l)" using c1 by simp
  then have nl: "N - l \<le> 2 ^ 53" using bound by linarith
  have sub: "dsub (Num (real N)) (Num (real l)) = Num (real (N - l))"
    using fl_nat [OF nl] l by (simp add: of_nat_diff)
  have mul: "dmul (Num (real (N choose l))) (Num (real (N - l)))
               = Num (real ((N choose l) * (N - l)))"
    using fl_nat [OF bound] by simp
  have s: "Suc l * (N choose Suc l) = (N choose l) * (N - l)"
  proof -
    obtain b where N: "N = Suc (l + b)" using l less_iff_Suc_add by auto
    have "Suc l * (N choose Suc l) = Suc b * (N choose l)"
      unfolding N by (rule Suc_times_binomial_add)
    then show ?thesis unfolding N by (simp add: mult.commute)
  qed
  have "Suc l \<le> N" using l by simp
  then have "0 < N choose Suc l" by (rule zero_less_binomial)
  then have "1 \<le> N choose Suc l" by linarith
  then have "Suc l * 1 \<le> Suc l * (N choose Suc l)" by (rule mult_le_mono2)
  then have "Suc l \<le> Suc l * (N choose Suc l)" by simp
  then have sl: "Suc l \<le> 2 ^ 53" using s bound by linarith
  have add: "dadd (Num (real l)) (Num 1) = Num (real (Suc l))"
    using fl_nat [OF sl] by (simp add: add.commute)
  have "N choose Suc l \<le> Suc l * (N choose Suc l)" by simp
  then have cs: "N choose Suc l \<le> 2 ^ 53" using s bound by linarith
  have q: "real ((N choose l) * (N - l)) / real (Suc l) = real (N choose Suc l)"
    using binomial_step [OF l] l by (simp add: of_nat_diff add.commute)
  have dv: "ddiv (Num (real ((N choose l) * (N - l)))) (Num (real (Suc l)))
              = Num (real (N choose Suc l))"
    using fl_nat [OF cs] unfolding ddiv.simps q by simp
  show ?thesis
    using lk by (subst comb_loop.simps) (simp only: sub mul add dv if_True)
qed

lemma comb_loop_prefix:
  assumes "i \<le> j" and "j \<le> N" and "real j \<le> k"
    and "\<forall>l < j. (N choose l) * (N - l) \<le> 2 ^ 53"
  shows "comb_loop i k (real N) (Num (real (N choose i)))
           = comb_loop j k (real N) (Num (real (N choose j)))"
  using assms(1)
proof (induction "j - i" arbitrary: i)
  case 0
  then show ?case by simp
next
  case (Suc d)
  then have lt: "i < j" by simp
  have "comb_loop i k (real N) (Num (real (N choose i)))
          = comb_loop (Suc i) k (real N) (Num (real (N choose Suc i)))"
    using lt assms(2,3,4) by (intro comb_loop_step) auto
  also have "\<dots> = comb_loop j k (real N) (Num (real (N choose j)))"
    using Suc.hyps(1) [of "Suc i"] Suc.hyps(2) lt by simp
  finally show ?case .
qed

lemma comb_small:
  assumes K: "0 < K" "K < N"
    and bound: "\<forall>l < min K (N - K). (N choose l) * (N - l) \<le> 2 ^ 53"
  shows "comb (real N) (real K) = Num (real (N choose K))"
proof -
  define M where "M = min K (N - K)"
  have M0: "0 < M" "M \<le> N" using K by (simp_all add: M_def)
  have "(N choose 0) * (N - 0) \<le> 2 ^ 53" using bound M0(1) unfolding M_def by blast
  then have N53: "N \<le> 2 ^ 53" by simp
  then have "N - K \<le> 2 ^ 53" by simp
  then have "fl (real (N - K)) = Num (real (N - K))" by (rule fl_nat)
  then have sub: "fl (real N - real K) = Num (real (N - K))"
    using K by (simp add: of_nat_diff)
  have d: "real N - real K = real (N - K)" using K by (simp add: of_nat_diff)
  have mn: "min (real K) (real N - real K) = real M"
    unfolding d M_def by (simp only: of_nat_min)
  have "comb (real N) (real K) = comb_loop 0 (real M) (real N) (Num 1)"
    using K by (simp add: comb_def sub mn)
  also have "\<dots> = comb_loop 0 (real M) (real N) (Num (real (N choose 0)))" by simp
  also have "\<dots> = comb_loop M (real M) (real N) (Num (real (N choose M)))"
    using M0(2) bound unfolding M_def [symmetric] by (intro comb_loop_prefix) simp_all
  also have "\<dots> = Num (real (N choose M))"
    by (subst comb_loop.simps) simp
  also have "N choose M = N choose K"
    using K binomial_symmetric [of K N] by (simp add: M_def min_def)
  finally show ?thesis .
qed

lemma choose_next:
  assumes "k < n" and "n choose k = c" and "k' = Suc k" and "c * (n - k) = k' * c'"
  shows "n choose k' = c'"
proof -
  obtain b where n: "n = Suc (k + b)" using assms(1) less_iff_Suc_add by auto
  have "Suc k * (n choose Suc k) = Suc b * (n choose k)"
    unfolding n by (rule Suc_times_binomial_add)
  also have "Suc b = n - k" unfolding n by simp
  also have "(n - k) * (n choose k) = c * (n - k)" unfolding assms(2) by (rule mult.commute)
  also have "\<dots> = Suc k * c'" unfolding assms(4) assms(3) ..
  finally have "Suc k * (n choose Suc k) = Suc k * c'" .
  then show ?thesis unfolding assms(3) by (simp only: Suc_mult_cancel1)
qed

lemma choose_55_19: "55 choose 18 = (144079707346575 :: nat)" "55 choose 19 = (280576272201225 :: nat)"
proof -
  have c0: "55 choose 0 = (1 :: nat)" by simp
  have c1: "55 choose 1 = (55 :: nat)"
    by (rule choose_next [where k = 0, OF _ c0]) simp_all
  have c2: "55 choose 2 = (1485 :: nat)"
    by (rule choose_next [where k = 1, OF _ c1]) simp_all
  have c3: "55 choose 3 = (26235 :: nat)"
    by (rule choose_next [where k = 2, OF _ c2]) simp_all
  have c4: "55 choose 4 = (341055 :: nat)"
    by (rule choose_next [where k = 3, OF _ c3]) simp_all
  have c5: "55 choose 5 = (3478761 :: nat)"
    by (rule choose_next [where k = 4, OF _ c4]) simp_all
  have c6: "55 choose 6 = (28989675 :: nat)"
    by (rule choose_next [where k = 5, OF _ c5]) simp_all
  have c7: "55 choose 7 = (202927725 :: nat)"
    by (rule choose_next [where k = 6, OF _ c6]) simp_all
  have c8: "55 choose 8 = (1217566350 :: nat)"
    by (rule choose_next [where k = 7, OF _ c7]) simp_all
  have c9: "55 choose 9 = (6358402050 :: nat)"
    by (rule choose_next [where k = 8, OF _ c8]) simp_all
  have c10: "55 choose 10 = (29248649430 :: nat)"
    by (rule choose_next [where k = 9, OF _ c9]) simp_all
  have c11: "55 choose 11 = (119653565850 :: nat)"
    by (rule choose_next [where k = 10, OF _ c10]) simp_all
  have c12: "55 choose 12 = (438729741450 :: nat)"
    by (rule choose_next [where k = 11, OF _ c11]) simp_all
  have c13: "55 choose 13 = (1451182990950 :: nat)"
    by (rule choose_next [where k = 12, OF _ c12]) simp_all
  have c14: "55 choose 14 = (4353548972850 :: nat)"
    by (rule choose_next [where k = 13, OF _ c13]) simp_all
  have c15: "55 choose 15 = (11899700525790 :: nat)"
    by (rule choose_next [where k = 14, OF _ c14]) simp_all
  have c16: "55 choose 16 = (29749251314475 :: nat)"
    by (rule choose_next [where k = 15, OF _ c15]) simp_all
  have c17: "55 choose 17 = (68248282427325 :: nat)"
    by (rule choose_next [where k = 16, OF _ c16]) simp_all
  have c18: "55 choose 18 = (144079707346575 :: nat)"
    by (rule choose_next [where k = 17, OF _ c17]) simp_all
  have c19: "55 choose 19 = (280576272201225 :: nat)"
    by (rule choose_next [where k = 18, OF _ c18]) simp_all
  show "55 choose 18 = (144079707346575 :: nat)" by (rule c18)
  show "55 choose 19 = (280576272201225 :: nat)" by (rule c19)
qed

lemma fl_comb_prod_19: "fl (10100745799244100) = Num (10100745799244100)"
  by (subst fl_eval_up [where k = 1]) (simp_all add: round_half_even_def)

lemma fl_comb_prod_20: "fl (17676305148677175) = Num (17676305148677176)"
  by (subst fl_eval_up [where k = 1]) (simp_all add: round_half_even_def)

lemma fl_comb_quot_20: "fl (17676305148677176 / 21) = Num (841728816603675)"
  by (subst fl_eval_down [where k = 3]) (simp_all add: round_half_even_def)

lemma fl_comb_prod_21: "fl (28618779764524950) = Num (28618779764524952)"
  by (subst fl_eval_up [where k = 2]) (simp_all add: round_half_even_def)

lemma fl_comb_quot_21: "fl (14309389882262476 / 11) = Num (1300853625660225)"
  by (subst fl_eval_down [where k = 2]) (simp_all add: round_half_even_def)

lemma fl_comb_prod_22: "fl (42928169646787425) = Num (42928169646787424)"
  by (subst fl_eval_up [where k = 3]) (simp_all add: round_half_even_def)

lemma fl_comb_quot_22: "fl (42928169646787424 / 23) = Num (1866442158555975)"
  by (subst fl_eval_down [where k = 2]) (simp_all add: round_half_even_def)

lemma fl_comb_prod_23: "fl (59726149073791200) = Num (59726149073791200)"
  by (subst fl_eval_up [where k = 3]) (simp_all add: round_half_even_def)

lemma fl_comb_prod_24: "fl (77146275886980300) = Num (77146275886980304)"
  by (subst fl_eval_up [where k = 4]) (simp_all add: round_half_even_def)

lemma fl_comb_quot_24: "fl (77146275886980304 / 25) = Num (3085851035479212)"
  by (subst fl_eval_down [where k = 1]) (simp_all add: round_half_even_def)

lemma fl_comb_prod_25: "fl (92575531064376360) = Num (92575531064376352)"
  by (subst fl_eval_up [where k = 4]) (simp_all add: round_half_even_def)

lemma fl_comb_quot_25: "fl (46287765532188176 / 13) = Num (7121194697259719 / 2)"
  by (subst fl_eval_down [where k = 1]) (simp_all add: round_half_even_def)


lemma comb_55_26: "comb 55 26 = Num (7121194697259719 / 2)"
proof -
  have b: "\<forall>l < 19. (55 choose l) * (55 - l) \<le> (2::nat) ^ 53"
  proof (intro allI impI)
    fix l :: nat
    assume "l < 19"
    then have "l \<le> 18" by simp
    then have "55 choose l \<le> (55 choose 18 :: nat)" by (intro binomial_mono) simp_all
    moreover have "55 - l \<le> (55 :: nat)" by simp
    ultimately have "(55 choose l) * (55 - l) \<le> (55 choose 18) * (55 :: nat)"
      by (rule mult_le_mono)
    also have "\<dots> \<le> 2 ^ 53" unfolding choose_55_19(1) by simp
    finally show "(55 choose l) * (55 - l) \<le> (2::nat) ^ 53" .
  qed
  note c19 = choose_55_19(2)
  have "comb 55 26 = comb_loop 0 26 55 (Num 1)"
    by (simp add: comb_def fl_small)
  also have "\<dots> = comb_loop 0 26 (real 55) (Num (real (55 choose 0)))" by simp
  also have "\<dots> = comb_loop 19 26 (real 55) (Num (real (55 choose 19)))"
    using b by (intro comb_loop_prefix) simp_all
  also have "\<dots> = comb_loop 19 26 55 (Num 280576272201225)" unfolding c19 by simp
  finally have s0: "comb 55 26 = comb_loop 19 26 55 (Num 280576272201225)" .
  have s19: "comb_loop 19 26 55 (Num (280576272201225)) = comb_loop 20 26 55 (Num (505037289962205))"
    by (subst comb_loop.simps) (simp add: fl_small fl_comb_prod_19)
  have s20: "comb_loop 20 26 55 (Num (505037289962205)) = comb_loop 21 26 55 (Num (841728816603675))"
    by (subst comb_loop.simps) (simp add: fl_small fl_comb_prod_20 fl_comb_quot_20)
  have s21: "comb_loop 21 26 55 (Num (841728816603675)) = comb_loop 22 26 55 (Num (1300853625660225))"
    by (subst comb_loop.simps) (simp add: fl_small fl_comb_prod_21 fl_comb_quot_21)
  have s22: "comb_loop 22 26 55 (Num (1300853625660225)) = comb_loop 23 26 55 (Num (1866442158555975))"
    by (subst comb_loop.simps) (simp add: fl_small fl_comb_prod_22 fl_comb_quot_22)
  have s23: "comb_loop 23 26 55 (Num (1866442158555975)) = comb_loop 24 26 55 (Num (2488589544741300))"
    by (subst comb_loop.simps) (simp add: fl_small fl_comb_prod_23)
  have s24: "comb_loop 24 26 55 (Num (2488589544741300)) = comb_loop 25 26 55 (Num (3085851035479212))"
    by (subst comb_loop.simps) (simp add: fl_small fl_comb_prod_24 fl_comb_quot_24)
  have s25: "comb_loop 25 26 55 (Num (3085851035479212)) = comb_loop 26 26 55 (Num (7121194697259719 / 2))"
    by (subst comb_loop.simps) (simp add: fl_small fl_comb_prod_25 fl_comb_quot_25)
  have s26: "comb_loop 26 26 55 (Num (7121194697259719 / 2)) = Num (7121194697259719 / 2)"
    by (subst comb_loop.simps) simp
  show ?thesis
    unfolding s0 s19 s20 s21 s22 s23 s24 s25 s26 ..
qed

text \<open>
  Claim C8 says that \<open>comb(n, k)\<close> is the binomial coefficient for every
  \<open>0 < k < n\<close>. For \<open>n = 55\<close>, \<open>k = 26\<close> the products \<open>c * (n - i)\<close> exceed
  \<open>2^53\<close> from \<open>i = 19\<close> on; the one at \<open>i = 20\<close>, 17676305148677175, is the first
  that is not a double, and the loop ends with 3560597348629859.5, which is not an
  integer (the coefficient is 3560597348629860).
\<close>

theorem comb_55_26_counterexample:
  "comb 55 26 = Num (7121194697259719 / 2) \<and> comb 55 26 \<noteq> Num (real (55 choose 26))"
proof -
  have "7121194697259719 / 2 \<noteq> real m" for m
  proof
    assume "7121194697259719 / 2 = real m"
    then have "real (2 * m) = real 7121194697259719" by simp
    then have "2 * m = (7121194697259719 :: nat)" by (simp only: of_nat_eq_iff)
    then show False by presburger
  qed
  then show ?thesis by (simp add: comb_55_26)
qed

text \<open>
  Claim C8, amended. \<open>comb(n, k)\<close> returns 0 for every \<open>k < 0\<close> and every \<open>k > n\<close>,
  returns 1 at the boundaries \<open>k = 0\<close> and \<open>k = n\<close> (for \<open>n \<ge> 0\<close>), and otherwise, for
  integers \<open>0 < k < n\<close>, equals the binomial coefficient \<open>C(n, k)\<close>, computed via the
  symmetry \<open>k = min(k, n - k)\<close> and the iterative multiplicative formula, whenever
  every intermediate product \<open>C(n, i) * (n - i)\<close>, \<open>i < min(k, n - k)\<close>, is at most
  \<open>2^53\<close>; in particular \<open>comb(5, 7) = 0\<close>.
\<close>

theorem comb_exact_products:
  "(k < 0 \<or> k > n \<longrightarrow> comb n k = Num 0)
   \<and> (0 \<le> n \<longrightarrow> comb n 0 = Num 1 \<and> comb n n = Num 1)
   \<and> (0 < K \<and> K < N \<and> (\<forall>l < min K (N - K). (N choose l) * (N - l) \<le> 2 ^ 53) \<longrightarrow>
        comb (real N) (real K) = Num (real (N choose K)))
   \<and> comb 5 7 = Num 0"
proof -
  have mid: "0 < K \<and> K < N \<and> (\<forall>l < min K (N - K). (N choose l) * (N - l) \<le> 2 ^ 53) \<longrightarrow>
        comb (real N) (real K) = Num (real (N choose K))"
    using comb_small [of K N] by blast
  have out: "k < 0 \<or> k > n \<longrightarrow> comb n k = Num 0"
    by (simp add: comb_def)
  have edge: "0 \<le> n \<longrightarrow> comb n 0 = Num 1 \<and> comb n n = Num 1"
    by (simp add: comb_def)
  have ex: "comb 5 7 = Num 0"
    by (simp add: comb_def)
  from out edge mid ex show ?thesis by blast
qed

theorem comb_exact_products_witness:
  "(0::nat) < 2 \<and> (2::nat) < 5
   \<and> (5 choose 0) * (5 - 0) \<le> (2::nat) ^ 53 \<and> (5 choose 1) * (5 - 1) \<le> (2::nat) ^ 53
   \<and> comb 5 2 = Num 10
   \<and> (7 :: real) > 5 \<and> comb 5 7 = Num 0 \<and> (0 :: real) \<le> 5 \<and> comb 5 0 = Num 1 \<and> comb 5 5 = Num 1"
proof -
  have c: "5 choose 2 = (10 :: nat)" by (simp add: binomial_Suc_Suc numeral_2_eq_2 eval_nat_numeral)
  have "l < 2 \<longrightarrow> (5 choose l) * (5 - l) \<le> (2::nat) ^ 53" for l
  proof
    assume "l < 2"
    then consider "l = 0" | "l = 1" by linarith
    then show "(5 choose l) * (5 - l) \<le> (2::nat) ^ 53" by cases simp_all
  qed
  then have h: "\<forall>l < min 2 (5 - 2). (5 choose l) * (5 - l) \<le> (2::nat) ^ 53" by simp
  from comb_exact_products [of 7 5 2 5] h c show ?thesis by simp
qed

subsection \<open>\<open>normalCDF\<close> at the mean\<close>

lemma erf_0: "erf 0 = 1 / 10 ^ 9"
  by (simp add: erf_def)

lemma erf_odd: "0 < x \<Longrightarrow> erf (- x) = - erf x"
  by (simp add: erf_def Let_def)

lemma normalCDF_mean_value: "normalCDF mu mu sigma = 0.5 * (1 + erf 0)"
  by (simp add: normalCDF_def)

text \<open>
  Claim C6. For every mean and every positive standard deviation,
  \<open>normalCDF(mu, mu, sigma)\<close> is \<open>0.5 * (1 + erf(0))\<close>; the approximation of
  \<open>erf\<close> returns at 0 the value \<open>1e-9\<close>, which is within \<open>1.5e-7\<close> of 0, so
  that the value of the distribution function at the mean is within that tolerance of
  0.5. The sign is put back after the polynomial has been evaluated at \<open>|x|\<close>:
  \<open>erf(-x) = -erf(x)\<close> for \<open>x > 0\<close>.
\<close>

theorem normalCDF_at_mean:
  "0 < sigma \<Longrightarrow>
     normalCDF mu mu sigma = 0.5 * (1 + erf 0)
     \<and> erf 0 = 1 / 10 ^ 9
     \<and> \<bar>erf 0\<bar> \<le> 1.5 / 10 ^ 7
     \<and> \<bar>normalCDF mu mu sigma - 0.5\<bar> \<le> 1.5 / 10 ^ 7
     \<and> (0 < x \<longrightarrow> erf (- x) = - erf x)"
  by (simp add: normalCDF_mean_value erf_0 erf_odd)

theorem normalCDF_at_mean_witness:
  "(0::real) < 2 \<and> \<bar>normalCDF 3 3 2 - 0.5\<bar> \<le> 1.5 / 10 ^ 7
   \<and> (0::real) < 1 \<and> erf (- 1) = - erf 1"
  using normalCDF_at_mean [where sigma = 2 and mu = 3 and x = 1] by simp

subsection \<open>Confidence intervals\<close>

lemma example_differences: "pair_differences [10, 12, 14] [8, 11, 12] = [2, 1, 2]"
  by (simp add: pair_differences_def enumerate_eq_zip upt_rec)

lemma example_meanDiff: "mean_of (pair_differences [10, 12, 14] [8, 11, 12]) = 5 / 3"
  by (simp add: example_differences mean_of_def)

text \<open>
  Claim C1 says that every path returns \<open>[estimate - margin, +\<infinity>)\<close> for
  \<open>one-sided-lower\<close> and \<open>(-\<infinity>, estimate + margin]\<close> for \<open>one-sided-upper\<close>.
  The two known-variance paths for paired data are evaluated here at the same input,
  with \<open>one-sided-lower\<close>: the two-sample component returns the interval of the claim,
  \<open>handleCalculate\<close> of \<open>PairedMeanCI.tsx\<close> returns \<open>-Infinity\<close> as the lower
  bound and \<open>estimate + margin\<close> as the upper bound.
\<close>

theorem one_sided_lower_paths_disagree:
  "PairedMeanCI_handleCalculate getZ calc [10, 12, 14] [8, 11, 12] 0.95 OneSidedLower True (Some 1)
     = Inr \<lparr>lower = NegInfinity, upper = Finite (5 / 3 + getZ 0.9 * (1 / sqrt 3)),
            marginOfError = getZ 0.9 * (1 / sqrt 3), methodLabel = PairedZKnownVarianceLabel,
            criticalValue = getZ 0.9, meanDiff = 5 / 3, intervalType = OneSidedLower\<rparr>
   \<and> TwoSampleCI_calculate getZ calc [10, 12, 14] [8, 11, 12] 0.95 Paired OneSidedLower True
        (Some 1) (Some 1)
     = Inr \<lparr>lower = Finite (5 / 3 - getZ 0.9 * sqrt (2 / 3)), upper = Infinity,
            marginOfError = getZ 0.9 * sqrt (2 / 3),
            methodLabel = Label ''Paired Samples Z-test (Known Variance)'',
            criticalValue = getZ 0.9, meanDiff = 5 / 3, intervalType = OneSidedLower,
            mean1 = 12, mean2 = 31 / 3, n1 = 3, n2 = 3\<rparr>"
proof -
  have c: "2 * (0.95::real) - 1 = 0.9" by simp
  have l: "length (pair_differences [10, 12, 14] [8, 11, 12]) = 3"
    by (simp add: example_differences)
  have m1: "mean_of [10, 12, 14] = 12" by (simp add: mean_of_def)
  have m2: "mean_of [8, 11, 12] = 31 / 3" by (simp add: mean_of_def)
  have p: "PairedMeanCI_handleCalculate getZ calc [10, 12, 14] [8, 11, 12] 0.95 OneSidedLower True (Some 1)
     = Inr \<lparr>lower = NegInfinity, upper = Finite (5 / 3 + getZ 0.9 * (1 / sqrt 3)),
            marginOfError = getZ 0.9 * (1 / sqrt 3), methodLabel = PairedZKnownVarianceLabel,
            criticalValue = getZ 0.9, meanDiff = 5 / 3, intervalType = OneSidedLower\<rparr>"
    unfolding PairedMeanCI_handleCalculate_def Let_def example_meanDiff l c by simp
  have t: "TwoSampleCI_calculate getZ calc [10, 12, 14] [8, 11, 12] 0.95 Paired OneSidedLower True
        (Some 1) (Some 1)
     = Inr \<lparr>lower = Finite (5 / 3 - getZ 0.9 * sqrt (2 / 3)), upper = Infinity,
            marginOfError = getZ 0.9 * sqrt (2 / 3),
            methodLabel = Label ''Paired Samples Z-test (Known Variance)'',
            criticalValue = getZ 0.9, meanDiff = 5 / 3, intervalType = OneSidedLower,
            mean1 = 12, mean2 = 31 / 3, n1 = 3, n2 = 3\<rparr>"
    unfolding TwoSampleCI_calculate_def Let_def example_meanDiff l c m1 m2 by simp
  from p t show ?thesis by (rule conjI)
qed

text \<open>
  Claim C2 gives 2.333 as the mean difference of \<open>before = [10, 12, 14]\<close> and
  \<open>after = [8, 11, 12]\<close>. The differences are 2, 1, 2 and their mean is \<open>5/3\<close>.
\<close>

theorem paired_example_mean_difference_counterexample:
  "\<not> \<bar>mean_of (pair_differences [10, 12, 14] [8, 11, 12]) - 2.333\<bar> \<le> 0.0005"
  by (simp add: example_meanDiff)

text \<open>
  Claim C2, amended. For \<open>before = [10, 12, 14]\<close>, \<open>after = [8, 11, 12]\<close>, confidence
  level 0.95 and known population variance 1, the mean of the differences
  \<open>before[i] - after[i]\<close> is \<open>5/3\<close> (1.667 to three decimals), and the two-sided
  result of either component is the symmetric interval
  \<open>[meanDiff - margin, meanDiff + margin]\<close> around it, whatever
  \<open>getZCriticalValue\<close> returns.
\<close>

theorem paired_example_two_sided:
  "PairedMeanCI_handleCalculate getZ calc [10, 12, 14] [8, 11, 12] 0.95 TwoSided True (Some 1)
     = Inr \<lparr>lower = Finite (5 / 3 - getZ 0.95 * (1 / sqrt 3)),
            upper = Finite (5 / 3 + getZ 0.95 * (1 / sqrt 3)),
            marginOfError = getZ 0.95 * (1 / sqrt 3), methodLabel = PairedZKnownVarianceLabel,
            criticalValue = getZ 0.95, meanDiff = 5 / 3, intervalType = TwoSided\<rparr>
   \<and> TwoSampleCI_calculate getZ calc [10, 12, 14] [8, 11, 12] 0.95 Paired TwoSided True
        (Some 1) (Some 1)
     = Inr \<lparr>lower = Finite (5 / 3 - getZ 0.95 * sqrt (2 / 3)),
            upper = Finite (5 / 3 + getZ 0.95 * sqrt (2 / 3)),
            marginOfError = getZ 0.95 * sqrt (2 / 3),
            methodLabel = Label ''Paired Samples Z-test (Known Variance)'',
            criticalValue = getZ 0.95, meanDiff = 5 / 3, intervalType = TwoSided,
            mean1 = 12, mean2 = 31 / 3, n1 = 3, n2 = 3\<rparr>
   \<and> mean_of (pair_differences [10, 12, 14] [8, 11, 12]) = 5 / 3
   \<and> \<bar>(5 / 3 :: real) - 1.667\<bar> \<le> 0.0005"
proof -
  have l: "length (pair_differences [10, 12, 14] [8, 11, 12]) = 3"
    by (simp add: example_differences)
  have m1: "mean_of [10, 12, 14] = 12" by (simp add: mean_of_def)
  have m2: "mean_of [8, 11, 12] = 31 / 3" by (simp add: mean_of_def)
  have p: "PairedMeanCI_handleCalculate getZ calc [10, 12, 14] [8, 11, 12] 0.95 TwoSided True (Some 1)
     = Inr \<lparr>lower = Finite (5 / 3 - getZ 0.95 * (1 / sqrt 3)),
            upper = Finite (5 / 3 + getZ 0.95 * (1 / sqrt 3)),
            marginOfError = getZ 0.95 * (1 / sqrt 3), methodLabel = PairedZKnownVarianceLabel,
            criticalValue = getZ 0.95, meanDiff = 5 / 3, intervalType = TwoSided\<rparr>"
    unfolding PairedMeanCI_handleCalculate_def Let_def example_meanDiff l by simp
  have t: "TwoSampleCI_calculate getZ calc [10, 12, 14] [8, 11, 12] 0.95 Paired TwoSided True
        (Some 1) (Some 1)
     = Inr \<lparr>lower = Finite (5 / 3 - getZ 0.95 * sqrt (2 / 3)),
            upper = Finite (5 / 3 + getZ 0.95 * sqrt (2 / 3)),
            marginOfError = getZ 0.95 * sqrt (2 / 3),
            methodLabel = Label ''Paired Samples Z-test (Known Variance)'',
            criticalValue = getZ 0.95, meanDiff = 5 / 3, intervalType = TwoSided,
            mean1 = 12, mean2 = 31 / 3, n1 = 3, n2 = 3\<rparr>"
    unfolding TwoSampleCI_calculate_def Let_def example_meanDiff l m1 m2 by simp
  have a: "\<bar>(5 / 3 :: real) - 1.667\<bar> \<le> 0.0005" by simp
  from p t example_meanDiff a show ?thesis by blast
qed

lemma paired_known_result:
  assumes "before \<noteq> []" "length after = length before" "0 < v"
  shows "PairedMeanCI_handleCalculate getZ calc before after c itype True (Some v)
           = (let z = (if itype = TwoSided then getZ c else getZ (2 * c - 1));
                  se = sqrt v / sqrt (real (length before));
                  md = mean_of (pair_differences before after)
              in Inr \<lparr>lower = (if itype = OneSidedLower then NegInfinity else Finite (md - z * se)),
                       upper = (if itype = OneSidedUpper then Infinity else Finite (md + z * se)),
                       marginOfError = z * se, methodLabel = PairedZKnownVarianceLabel,
                       criticalValue = z, meanDiff = md, intervalType = itype\<rparr>)"
  using assms
  by (cases itype) (simp_all add: PairedMeanCI_handleCalculate_def Let_def pair_differences_def)

lemma two_sample_known_result:
  assumes "d1 \<noteq> []" "d2 \<noteq> []" "meth = Paired \<longrightarrow> length d1 = length d2" "0 < v1" "0 < v2"
  shows "TwoSampleCI_calculate getZ calc d1 d2 c meth itype True (Some v1) (Some v2)
           = (let z = (if itype = TwoSided then getZ c else getZ (2 * c - 1));
                  se = (if meth = Paired then sqrt ((v1 + v2) / real (length d1))
                        else sqrt (v1 / real (length d1) + v2 / real (length d2)));
                  md = (if meth = Paired then mean_of (pair_differences d1 d2)
                        else mean_of d1 - mean_of d2)
              in Inr \<lparr>lower = (if itype = OneSidedUpper then NegInfinity else Finite (md - z * se)),
                       upper = (if itype = OneSidedLower then Infinity else Finite (md + z * se)),
                       marginOfError = z * se,
                       methodLabel =
                         (if meth = Paired then Label ''Paired Samples Z-test (Known Variance)''
                          else Label (''Two Sample Z-test (''
                                 @ (if meth = Pooled then ''Pooled'' else ''Welch'')
                                 @ '') with Known Variance'')),
                       criticalValue = z, meanDiff = md, intervalType = itype,
                       mean1 = mean_of d1, mean2 = mean_of d2,
                       n1 = length d1, n2 = length d2\<rparr>)"
proof (cases "meth = Paired")
  case True
  with assms show ?thesis
    by (cases itype) (simp_all add: TwoSampleCI_calculate_def Let_def pair_differences_def)
next
  case False
  with assms show ?thesis
    by (cases itype) (simp_all add: TwoSampleCI_calculate_def Let_def)
qed

lemma one_sample_known_result:
  assumes "xs \<noteq> []" "0 < v0"
  shows "calculateOneSampleMeanCI getZ getT std itype xs c (BasicStatisticsTab_knownVariance True v0)
           = (let z = (if itype = TwoSided then getZ c else getZ (2 * c - 1));
                  se = sqrt (v0 / real (length xs));
                  md = mean_of xs
              in Inr \<lparr>lower = (if itype = OneSidedUpper then NegInfinity else Finite (md - z * se)),
                       upper = (if itype = OneSidedLower then Infinity else Finite (md + z * se)),
                       marginOfError = z * se, methodLabel = Label ''z'',
                       criticalValue = z, meanDiff = md, intervalType = itype\<rparr>)"
  using assms
  by (simp add: calculateOneSampleMeanCI_def BasicStatisticsTab_knownVariance_def Let_def)

text \<open>
  Claim C3. With a known, strictly positive population variance, every path takes the
  critical value from \<open>getZCriticalValue\<close>, for samples of every size: the result of
  \<open>handleCalculate\<close> of \<open>PairedMeanCI.tsx\<close>, of \<open>calculate\<close> of the two-sample
  component (pooled, Welch and paired) and of the one-sample estimator is the record
  whose critical value \<open>z\<close> is \<open>getZCriticalValue(c)\<close> for a two-sided interval and
  \<open>getZCriticalValue(2c - 1)\<close> for a one-sided one, whose margin is \<open>z\<close> times the
  standard error of the known variance, and whose finite bounds are the estimate minus
  and plus that margin; the functions for the unknown-variance case do not occur in it.
  So a one-sided interval at level \<open>c\<close> has the critical value and the margin of the
  two-sided interval at level \<open>2c - 1\<close>, and the two one-sided types have the same
  ones.
\<close>

theorem known_variance_uses_z:
  assumes "before \<noteq> []" and "length after = length before" and "0 < v"
    and "d1 \<noteq> []" and "d2 \<noteq> []" and "meth = Paired \<longrightarrow> length d1 = length d2"
    and "0 < v1" and "0 < v2"
    and "xs \<noteq> []" and "0 < v0"
  shows "PairedMeanCI_handleCalculate getZ calc before after c itype True (Some v)
           = (let z = (if itype = TwoSided then getZ c else getZ (2 * c - 1));
                  se = sqrt v / sqrt (real (length before));
                  md = mean_of (pair_differences before after)
              in Inr \<lparr>lower = (if itype = OneSidedLower then NegInfinity else Finite (md - z * se)),
                       upper = (if itype = OneSidedUpper then Infinity else Finite (md + z * se)),
                       marginOfError = z * se, methodLabel = PairedZKnownVarianceLabel,
                       criticalValue = z, meanDiff = md, intervalType = itype\<rparr>)
       \<and> TwoSampleCI_calculate getZ calc d1 d2 c meth itype True (Some v1) (Some v2)
           = (let z = (if itype = TwoSided then getZ c else getZ (2 * c - 1));
                  se = (if meth = Paired then sqrt ((v1 + v2) / real (length d1))
                        else sqrt (v1 / real (length d1) + v2 / real (length d2)));
                  md = (if meth = Paired then mean_of (pair_differences d1 d2)
                        else mean_of d1 - mean_of d2)
              in Inr \<lparr>lower = (if itype = OneSidedUpper then NegInfinity else Finite (md - z * se)),
                       upper = (if itype = OneSidedLower then Infinity else Finite (md + z * se)),
                       marginOfError = z * se,
                       methodLabel =
                         (if meth = Paired then Label ''Paired Samples Z-test (Known Variance)''
                          else Label (''Two Sample Z-test (''
                                 @ (if meth = Pooled then ''Pooled'' else ''Welch'')
                                 @ '') with Known Variance'')),
                       criticalValue = z, meanDiff = md, intervalType = itype,
                       mean1 = mean_of d1, mean2 = mean_of d2,
                       n1 = length d1, n2 = length d2\<rparr>)
       \<and> calculateOneSampleMeanCI getZ getT std itype xs c (BasicStatisticsTab_knownVariance True v0)
           = (let z = (if itype = TwoSided then getZ c else getZ (2 * c - 1));
                  se = sqrt (v0 / real (length xs));
                  md = mean_of xs
              in Inr \<lparr>lower = (if itype = OneSidedUpper then NegInfinity else Finite (md - z * se)),
                       upper = (if itype = OneSidedLower then Infinity else Finite (md + z * se)),
                       marginOfError = z * se, methodLabel = Label ''z'',
                       criticalValue = z, meanDiff = md, intervalType = itype\<rparr>)
       \<and> (itype \<noteq> TwoSided \<longrightarrow>
           critical_of (PairedMeanCI_handleCalculate getZ calc before after c itype True (Some v))
             = critical_of (PairedMeanCI_handleCalculate getZ calc before after (2 * c - 1)
                              TwoSided True (Some v))
         \<and> margin_of (PairedMeanCI_handleCalculate getZ calc before after c itype True (Some v))
             = margin_of (PairedMeanCI_handleCalculate getZ calc before after (2 * c - 1)
                            TwoSided True (Some v))
         \<and> critical_of (TwoSampleCI_calculate getZ calc d1 d2 c meth itype True (Some v1) (Some v2))
             = critical_of (TwoSampleCI_calculate getZ calc d1 d2 (2 * c - 1) meth TwoSided True
                              (Some v1) (Some v2))
         \<and> margin_of (TwoSampleCI_calculate getZ calc d1 d2 c meth itype True (Some v1) (Some v2))
             = margin_of (TwoSampleCI_calculate getZ calc d1 d2 (2 * c - 1) meth TwoSided True
                            (Some v1) (Some v2))
         \<and> critical_of (calculateOneSampleMeanCI getZ getT std itype xs c
                          (BasicStatisticsTab_knownVariance True v0))
             = critical_of (calculateOneSampleMeanCI getZ getT std TwoSided xs (2 * c - 1)
                              (BasicStatisticsTab_knownVariance True v0))
         \<and> margin_of (calculateOneSampleMeanCI getZ getT std itype xs c
                        (BasicStatisticsTab_knownVariance True v0))
             = margin_of (calculateOneSampleMeanCI getZ getT std TwoSided xs (2 * c - 1)
                            (BasicStatisticsTab_knownVariance True v0)))"
proof -
  note p = paired_known_result [OF assms(1,2,3)]
  note t = two_sample_known_result [OF assms(4,5,6,7,8)]
  note s = one_sample_known_result [OF assms(9,10)]
  have d: "itype \<noteq> TwoSided \<longrightarrow>
           critical_of (PairedMeanCI_handleCalculate getZ calc before after c itype True (Some v))
             = critical_of (PairedMeanCI_handleCalculate getZ calc before after (2 * c - 1)
                              TwoSided True (Some v))
         \<and> margin_of (PairedMeanCI_handleCalculate getZ calc before after c itype True (Some v))
             = margin_of (PairedMeanCI_handleCalculate getZ calc before after (2 * c - 1)
                            TwoSided True (Some v))
         \<and> critical_of (TwoSampleCI_calculate getZ calc d1 d2 c meth itype True (Some v1) (Some v2))
             = critical_of (TwoSampleCI_calculate getZ calc d1 d2 (2 * c - 1) meth TwoSided True
                              (Some v1) (Some v2))
         \<and> margin_of (TwoSampleCI_calculate getZ calc d1 d2 c meth itype True (Some v1) (Some v2))
             = margin_of (TwoSampleCI_calculate getZ calc d1 d2 (2 * c - 1) meth TwoSided True
                            (Some v1) (Some v2))
         \<and> critical_of (calculateOneSampleMeanCI getZ getT std itype xs c
                          (BasicStatisticsTab_knownVariance True v0))
             = critical_of (calculateOneSampleMeanCI getZ getT std TwoSided xs (2 * c - 1)
                              (BasicStatisticsTab_knownVariance True v0))
         \<and> margin_of (calculateOneSampleMeanCI getZ getT std itype xs c
                        (BasicStatisticsTab_knownVariance True v0))
             = margin_of (calculateOneSampleMeanCI getZ getT std TwoSided xs (2 * c - 1)
                            (BasicStatisticsTab_knownVariance True v0))"
    unfolding paired_known_result [OF assms(1,2,3)] two_sample_known_result [OF assms(4,5,6,7,8)]
      one_sample_known_result [OF assms(9,10)]
    by (simp add: critical_of_def margin_of_def Let_def)
  show ?thesis
    by (rule conjI [OF p conjI [OF t conjI [OF s d]]])
qed

theorem known_variance_uses_z_witness:
  "[10, 12, 14] \<noteq> ([] :: real list) \<and> length [8, 11, 12 :: real] = length [10, 12, 14 :: real]
   \<and> (0 :: real) < 3 \<and> (0 :: real) < 1 \<and> (0 :: real) < 2
   \<and> critical_of (PairedMeanCI_handleCalculate (\<lambda>c. 2 * c) (\<lambda>a b c m t. Inl [])
         [10, 12, 14] [8, 11, 12] 0.95 OneSidedUpper True (Some 3)) = Some 1.8
   \<and> margin_of (PairedMeanCI_handleCalculate (\<lambda>c. 2 * c) (\<lambda>a b c m t. Inl [])
         [10, 12, 14] [8, 11, 12] 0.95 OneSidedUpper True (Some 3)) = Some 1.8
   \<and> critical_of (TwoSampleCI_calculate (\<lambda>c. 2 * c) (\<lambda>a b c m t. Inl [])
         [10, 12, 14] [8, 11, 12] 0.95 Paired OneSidedLower True (Some 1) (Some 2)) = Some 1.8
   \<and> margin_of (TwoSampleCI_calculate (\<lambda>c. 2 * c) (\<lambda>a b c m t. Inl [])
         [10, 12, 14] [8, 11, 12] 0.95 Paired OneSidedLower True (Some 1) (Some 2)) = Some 1.8
   \<and> critical_of (TwoSampleCI_calculate (\<lambda>c. 2 * c) (\<lambda>a b c m t. Inl [])
         [10, 12, 14] [8, 11, 12] (2 * 0.95 - 1) Paired TwoSided True (Some 1) (Some 2)) = Some 1.8
   \<and> critical_of (calculateOneSampleMeanCI (\<lambda>c. 2 * c) (\<lambda>c ys. 0) (\<lambda>ys. 0) OneSidedLower
         [10, 12, 14] 0.95 (BasicStatisticsTab_knownVariance True 3)) = Some 1.8
   \<and> margin_of (calculateOneSampleMeanCI (\<lambda>c. 2 * c) (\<lambda>c ys. 0) (\<lambda>ys. 0) OneSidedLower
         [10, 12, 14] 0.95 (BasicStatisticsTab_knownVariance True 3)) = Some 1.8"
  using known_variance_uses_z [where before = "[10, 12, 14]" and after = "[8, 11, 12]" and v = 3
      and ?d1.0 = "[10, 12, 14]" and ?d2.0 = "[8, 11, 12]" and meth = Paired and ?v1.0 = 1 and ?v2.0 = 2
      and xs = "[10, 12, 14]" and ?v0.0 = 3
      and getZ = "\<lambda>c. 2 * c" and calc = "\<lambda>a b c m t. Inl []" and c = "0.95"
      and getT = "\<lambda>c ys. 0" and std = "\<lambda>ys. 0"
      and itype = OneSidedUpper]
    known_variance_uses_z [where before = "[10, 12, 14]" and after = "[8, 11, 12]" and v = 3
      and ?d1.0 = "[10, 12, 14]" and ?d2.0 = "[8, 11, 12]" and meth = Paired and ?v1.0 = 1 and ?v2.0 = 2
      and xs = "[10, 12, 14]" and ?v0.0 = 3
      and getZ = "\<lambda>c. 2 * c" and calc = "\<lambda>a b c m t. Inl []" and c = "0.95"
      and getT = "\<lambda>c ys. 0" and std = "\<lambda>ys. 0"
      and itype = OneSidedLower]
  by (auto simp: critical_of_def margin_of_def Let_def)

subsection \<open>Descriptive statistics\<close>

lemma foldl_plus_sum_list: "foldl (\<lambda>a b. a + f b) (s::real) xs = s + sum_list (map f xs)"
  by (induction xs arbitrary: s) simp_all

lemma floor_div_nat: "nat \<lfloor>real m / real k\<rfloor> = m div k"
  by (simp only: floor_divide_of_nat_eq nat_int)

lemma floor_quarter: "nat \<lfloor>real n / 4\<rfloor> = n div 4"
  using floor_div_nat [of n 4] by simp

lemma floor_three_quarters: "nat \<lfloor>real n * 3 / 4\<rfloor> = (3 * n) div 4"
  using floor_div_nat [of "3 * n" 4] by (simp add: mult.commute)

lemma floor_half: "nat \<lfloor>real n / 2\<rfloor> = n div 2"
  using floor_div_nat [of n 2] by simp

lemma calculateStats_heap:
  assumes "data < next_ref h"
  shows "fst (calculateStats h data)
           = h\<lparr>arrays := (arrays h)(next_ref h := sort (arrays h data)),
                next_ref := Suc (next_ref h)\<rparr>"
  using assms by (simp add: calculateStats_def array_spread_def array_sort_def Let_def)

lemma calculateStats_value:
  assumes "data < next_ref h" and "arrays h data = xs" and "xs \<noteq> []"
  shows "snd (calculateStats h data)
           = Some \<lparr>mean = sum_list xs / real (length xs),
                   median = (if even (length xs)
                             then (sort xs ! (length xs div 2 - 1) + sort xs ! (length xs div 2)) / 2
                             else sort xs ! (length xs div 2)),
                   variance = (\<Sum>x\<leftarrow>xs. (x - sum_list xs / real (length xs)) ^ 2)
                                / real (length xs),
                   stdDev = sqrt ((\<Sum>x\<leftarrow>xs. (x - sum_list xs / real (length xs)) ^ 2)
                                / real (length xs)),
                   min_value = sort xs ! 0,
                   max_value = sort xs ! (length xs - 1),
                   q1 = sort xs ! (length xs div 4),
                   q3 = sort xs ! ((3 * length xs) div 4),
                   count = length xs\<rparr>"
proof -
  have ne: "data \<noteq> next_ref h" using assms(1) by simp
  have m: "foldl (\<lambda>a b. a + b) 0 xs = sum_list xs"
    using foldl_plus_sum_list [of "\<lambda>b. b" 0 xs] by simp
  show ?thesis
    using assms(2,3) ne
    by (simp add: calculateStats_def array_spread_def array_sort_def Let_def m
        foldl_plus_sum_list floor_quarter floor_three_quarters floor_half even_iff_mod_2_eq_zero)
qed

lemma sort_example: "sort [1, 2, 3, 4, 5 :: real] = [1, 2, 3, 4, 5]"
  by simp

lemma quartile_indices_in_range:
  "xs \<noteq> [] \<Longrightarrow>
     length xs div 4 < length xs \<and> (3 * length xs) div 4 < length xs
     \<and> length xs div 2 < length xs \<and> length xs div 2 - 1 < length xs"
  by (cases xs) auto

text \<open>
  Claim C4. For every non-empty sample, \<open>calculateStats\<close> returns the population
  variance (the sum of the squared deviations from the mean, divided by \<open>n\<close>), the
  median as the average of the two central elements of the sorted sample when \<open>n\<close> is
  even and as the central element when \<open>n\<close> is odd, and the quartiles
  \<open>sorted[floor(n * 0.25)]\<close> and \<open>sorted[floor(n * 0.75)]\<close>, that is the elements
  at \<open>n div 4\<close> and \<open>3 * n div 4\<close>, both in range; for \<open>[1, 2, 3, 4, 5]\<close> the
  result has mean 3, median 3, variance 2, first quartile 2 and third quartile 4.
\<close>

theorem describe_spec:
  assumes "data < next_ref h" and "arrays h data = xs" and "xs \<noteq> []"
  shows "snd (calculateStats h data)
           = Some \<lparr>mean = sum_list xs / real (length xs),
                   median = (if even (length xs)
                             then (sort xs ! (length xs div 2 - 1) + sort xs ! (length xs div 2)) / 2
                             else sort xs ! (length xs div 2)),
                   variance = (\<Sum>x\<leftarrow>xs. (x - sum_list xs / real (length xs)) ^ 2)
                                / real (length xs),
                   stdDev = sqrt ((\<Sum>x\<leftarrow>xs. (x - sum_list xs / real (length xs)) ^ 2)
                                / real (length xs)),
                   min_value = sort xs ! 0,
                   max_value = sort xs ! (length xs - 1),
                   q1 = sort xs ! (length xs div 4),
                   q3 = sort xs ! ((3 * length xs) div 4),
                   count = length xs\<rparr>
       \<and> sorted (sort xs) \<and> length (sort xs) = length xs
       \<and> length xs div 4 < length xs \<and> (3 * length xs) div 4 < length xs
       \<and> length xs div 2 < length xs \<and> length xs div 2 - 1 < length xs
       \<and> (xs = [1, 2, 3, 4, 5] \<longrightarrow>
            snd (calculateStats h data)
              = Some \<lparr>mean = 3, median = 3, variance = 2, stdDev = sqrt 2, min_value = 1,
                      max_value = 5, q1 = 2, q3 = 4, count = 5\<rparr>)"
proof -
  note v = calculateStats_value [OF assms]
  have ex: "snd (calculateStats h data)
              = Some \<lparr>mean = 3, median = 3, variance = 2, stdDev = sqrt 2, min_value = 1,
                      max_value = 5, q1 = 2, q3 = 4, count = 5\<rparr>" if "xs = [1, 2, 3, 4, 5]"
    unfolding v that sort_example by simp
  from v ex quartile_indices_in_range [OF assms(3)] show ?thesis by simp
qed

theorem describe_spec_witness:
  "(0 :: nat) < next_ref \<lparr>arrays = (\<lambda>r. [])(0 := [1, 2, 3, 4, 5]), next_ref = 1\<rparr>
   \<and> arrays \<lparr>arrays = (\<lambda>r. [])(0 := [1, 2, 3, 4, 5]), next_ref = 1\<rparr> 0 = [1, 2, 3, 4, 5]
   \<and> [1, 2, 3, 4, 5] \<noteq> ([] :: real list)
   \<and> snd (calculateStats \<lparr>arrays = (\<lambda>r. [])(0 := [1, 2, 3, 4, 5]), next_ref = 1\<rparr> 0)
       = Some \<lparr>mean = 3, median = 3, variance = 2, stdDev = sqrt 2, min_value = 1,
               max_value = 5, q1 = 2, q3 = 4, count = 5\<rparr>"
  using describe_spec [of 0 "\<lparr>arrays = (\<lambda>r. [])(0 := [1, 2, 3, 4, 5]), next_ref = 1\<rparr>"
      "[1, 2, 3, 4, 5]"]
  by simp

text \<open>
  Claim C5. \<open>calculateStats\<close> does not change the array it is given, nor any other
  array the caller holds (the sort works on a fresh copy): after the call the sample has
  its elements in the order it had before, and a second call on the same sample returns
  the same statistics as the first.
\<close>

theorem describe_does_not_mutate:
  assumes "data < next_ref h" and "arrays h data \<noteq> []"
  shows "arrays (fst (calculateStats h data)) data = arrays h data
       \<and> (\<forall>a < next_ref h. arrays (fst (calculateStats h data)) a = arrays h a)
       \<and> snd (calculateStats (fst (calculateStats h data)) data) = snd (calculateStats h data)
       \<and> snd (calculateStats h data) \<noteq> None"
proof -
  let ?h' = "fst (calculateStats h data)"
  have h': "?h' = h\<lparr>arrays := (arrays h)(next_ref h := sort (arrays h data)),
                     next_ref := Suc (next_ref h)\<rparr>"
    using assms(1) by (rule calculateStats_heap)
  have same: "arrays ?h' a = arrays h a" if "a < next_ref h" for a
    using that by (simp add: h')
  have alloc: "data < next_ref ?h'" using assms(1) by (simp add: h')
  have d: "arrays ?h' data = arrays h data" using assms(1) by (rule same)
  have "snd (calculateStats ?h' data) = snd (calculateStats h data)"
    using calculateStats_value [OF alloc d assms(2)]
      calculateStats_value [OF assms(1) refl assms(2)] by simp
  moreover have "snd (calculateStats h data) \<noteq> None"
    using calculateStats_value [OF assms(1) refl assms(2)] by simp
  ultimately show ?thesis using same d by blast
qed

theorem describe_does_not_mutate_witness:
  "(0 :: nat) < next_ref \<lparr>arrays = (\<lambda>r. [])(0 := [3, 1, 2]), next_ref = 1\<rparr>
   \<and> arrays \<lparr>arrays = (\<lambda>r. [])(0 := [3, 1, 2]), next_ref = 1\<rparr> 0 \<noteq> []
   \<and> arrays (fst (calculateStats \<lparr>arrays = (\<lambda>r. [])(0 := [3, 1, 2]), next_ref = 1\<rparr> 0)) 0
       = [3, 1, 2]
   \<and> snd (calculateStats
             (fst (calculateStats \<lparr>arrays = (\<lambda>r. [])(0 := [3, 1, 2]), next_ref = 1\<rparr> 0)) 0)
       = snd (calculateStats \<lparr>arrays = (\<lambda>r. [])(0 := [3, 1, 2]), next_ref = 1\<rparr> 0)"
  using describe_does_not_mutate [of 0 "\<lparr>arrays = (\<lambda>r. [])(0 := [3, 1, 2]), next_ref = 1\<rparr>"]
  by simp

subsection \<open>The Poisson sampler\<close>

lemma exp_tiny: "Math_exp (- (1 / 10 ^ 17)) = Num 1"
  by (rule Math_exp_tiny) simp_all

text \<open>
  The route accepts every \<open>lambda > 0\<close> for the Poisson distribution
  (\<open>validateParameters\<close>, case \<open>'poisson'\<close>).
\<close>

lemma positive_lambda_accepted:
  assumes "find (\<lambda>d. d_name d = ''poisson'') availableDistributions = Some d" and "0 < lam"
  shows "validateParameters d (Map.empty(''lambda'' \<mapsto> lam))"
proof -
  have "d_name d = ''poisson'' \<and> d_parameters d = [''lambda'']"
    using assms(1) by (auto simp: availableDistributions_def)
  then show ?thesis using assms(2) by (simp add: validateParameters_def field_def)
qed

text \<open>
  Claim C10 says that for every \<open>lambda > 0\<close> each number \<open>generatePoisson\<close> returns
  is at least 0, the loop running at least once because 1 exceeds \<open>e^{-lambda}\<close>. For
  \<open>lambda = 1e-17\<close>, which \<open>validateParameters\<close> accepts, \<open>Math.exp(-lambda)\<close> is the
  double 1: the test \<open>p > l\<close> fails at once, \<open>k\<close> stays 0, and every number pushed is
  \<open>k - 1 = -1\<close>, whatever \<open>Math.random\<close> returns (it is not called).
\<close>

theorem generatePoisson_negative_variate:
  "generatePoisson random (1 / 10 ^ 17) 3 s = Some ([- 1, - 1, - 1], s)"
proof -
  define lam :: real where "lam = 1 / 10 ^ 17"
  have e: "Math_exp (- lam) = Num 1" unfolding lam_def by (rule exp_tiny)
  have w: "poisson_while random (Math_exp (- lam)) 0 (Num 1) s = Some (0, s)"
    unfolding e by (subst poisson_while.simps) simp
  have "generatePoisson_loop random lam 3 0 [] s
          = generatePoisson_loop random lam 3 (Suc 0) [- 1] s"
    by (subst generatePoisson_loop.simps) (simp add: w)
  also have "\<dots> = generatePoisson_loop random lam 3 (Suc (Suc 0)) [- 1, - 1] s"
    by (subst generatePoisson_loop.simps) (simp add: w)
  also have "\<dots> = generatePoisson_loop random lam 3 (Suc (Suc (Suc 0))) [- 1, - 1, - 1] s"
    by (subst generatePoisson_loop.simps) (simp add: w)
  also have "\<dots> = Some ([- 1, - 1, - 1], s)"
    by (subst generatePoisson_loop.simps) simp
  finally show ?thesis unfolding generatePoisson_def lam_def .
qed

subsection \<open>The distribution routes\<close>

lemma find_gamma:
  "find (\<lambda>d. d_name d = ''gamma'') availableDistributions
     = Some \<lparr>d_name = ''gamma'', displayName = ''Gamma Distribution'',
        description = ''Two-parameter family of continuous probability distributions'',
        d_parameters = [''shape'', ''rate''],
        constraints = [(''shape'', ''>0''), (''rate'', ''>0'')]\<rparr>"
  by (simp add: availableDistributions_def)

lemma validate_gamma:
  "parameters ''shape'' = Some a \<Longrightarrow> parameters ''rate'' = Some b \<Longrightarrow> 0 < a \<Longrightarrow> 0 < b \<Longrightarrow>
     validateParameters \<lparr>d_name = ''gamma'', displayName = dn, description = ds,
        d_parameters = [''shape'', ''rate''], constraints = cs\<rparr> parameters"
  by (simp add: validateParameters_def field_def)

lemma calculate_gamma_rejects:
  assumes "calc_parameters body = Some parameters" "calc_x body = Some x"
    and "parameters ''shape'' = Some a" "parameters ''rate'' = Some b" "0 < a" "0 < b"
    and "requested_type body \<noteq> ''pdf''"
  shows "calculate_route lib ''gamma'' body
           = Inl (400, ''Only PDF calculation available for gamma distribution'')"
  using assms(1,2,7) validate_gamma [OF assms(3-6)]
  by (simp add: calculate_route_def find_gamma requested_type_def Let_def split: option.splits)

lemma generate_gamma_rejects:
  assumes "gen_parameters body = Some parameters"
    and "parameters ''shape'' = Some a" "parameters ''rate'' = Some b" "0 < a" "0 < b"
    and "0 < requested_count body"
  shows "generate_route lib ''gamma'' body
           = Inl (400, ''Generation not implemented for this distribution'')"
  using assms(1,6) validate_gamma [OF assms(2-5)]
  by (simp add: generate_route_def find_gamma requested_count_def Let_def split: option.splits)

lemma generate_gamma_status: "status_of (generate_route lib ''gamma'' body) = 400"
  by (simp add: generate_route_def find_gamma status_of_def Let_def split: option.splits)

lemma catalog_names:
  "map d_name availableDistributions
     = [''normal'', ''uniform'', ''binomial'', ''poisson'', ''exponential'', ''gamma'']"
  by (simp add: availableDistributions_def)

lemma find_normal:
  "\<exists>d. find (\<lambda>d. d_name d = ''normal'') availableDistributions = Some d"
  by (simp add: availableDistributions_def)

lemma find_uniform:
  "\<exists>d. find (\<lambda>d. d_name d = ''uniform'') availableDistributions = Some d"
  by (simp add: availableDistributions_def)

lemma find_binomial:
  "\<exists>d. find (\<lambda>d. d_name d = ''binomial'') availableDistributions = Some d"
  by (simp add: availableDistributions_def)

lemma find_poisson:
  "\<exists>d. find (\<lambda>d. d_name d = ''poisson'') availableDistributions = Some d"
  by (simp add: availableDistributions_def)

lemma find_exponential:
  "\<exists>d. find (\<lambda>d. d_name d = ''exponential'') availableDistributions = Some d"
  by (simp add: availableDistributions_def)

lemma unsupported_normal:
  assumes "requested_type body \<noteq> ''pdf''" "requested_type body \<noteq> ''cdf''"
  shows "status_of (calculate_route lib ''normal'' body) = 400"
proof -
  obtain d where "find (\<lambda>d. d_name d = ''normal'') availableDistributions = Some d"
    using find_normal by blast
  with assms show ?thesis
    by (simp add: calculate_route_def requested_type_def status_of_def Let_def
        split: option.splits)
qed

lemma unsupported_uniform:
  assumes "requested_type body \<noteq> ''pdf''" "requested_type body \<noteq> ''cdf''"
  shows "status_of (calculate_route lib ''uniform'' body) = 400"
proof -
  obtain d where "find (\<lambda>d. d_name d = ''uniform'') availableDistributions = Some d"
    using find_uniform by blast
  with assms show ?thesis
    by (simp add: calculate_route_def requested_type_def status_of_def Let_def
        split: option.splits)
qed

lemma unsupported_binomial:
  assumes "requested_type body \<noteq> ''pmf''" "requested_type body \<noteq> ''cdf''"
  shows "status_of (calculate_route lib ''binomial'' body) = 400"
proof -
  obtain d where "find (\<lambda>d. d_name d = ''binomial'') availableDistributions = Some d"
    using find_binomial by blast
  with assms show ?thesis
    by (simp add: calculate_route_def requested_type_def status_of_def Let_def
        split: option.splits)
qed

lemma unsupported_poisson:
  assumes "requested_type body \<noteq> ''pmf''" "requested_type body \<noteq> ''cdf''"
  shows "status_of (calculate_route lib ''poisson'' body) = 400"
proof -
  obtain d where "find (\<lambda>d. d_name d = ''poisson'') availableDistributions = Some d"
    using find_poisson by blast
  with assms show ?thesis
    by (simp add: calculate_route_def requested_type_def status_of_def Let_def
        split: option.splits)
qed

lemma unsupported_exponential:
  assumes "requested_type body \<noteq> ''pdf''" "requested_type body \<noteq> ''cdf''"
  shows "status_of (calculate_route lib ''exponential'' body) = 400"
proof -
  obtain d where "find (\<lambda>d. d_name d = ''exponential'') availableDistributions = Some d"
    using find_exponential by blast
  with assms show ?thesis
    by (simp add: calculate_route_def requested_type_def status_of_def Let_def
        split: option.splits)
qed

lemma unsupported_gamma:
  assumes "requested_type body \<noteq> ''pdf''"
  shows "status_of (calculate_route lib ''gamma'' body) = 400"
  using assms
  by (simp add: calculate_route_def find_gamma requested_type_def status_of_def Let_def
      split: option.splits)

lemma six_cases:
  assumes "x \<in> set [a, b, c, d, e, f]"
  obtains "x = a" | "x = b" | "x = c" | "x = d" | "x = e" | "x = f"
  using assms by auto

lemma unsupported_type_status:
  assumes "name \<in> set (map d_name availableDistributions)"
    and "requested_type body \<notin> set (spec_supported_types name)"
  shows "status_of (calculate_route lib name body) = 400"
proof -
  from assms(1) have "name \<in> set [''normal'', ''uniform'', ''binomial'', ''poisson'',
      ''exponential'', ''gamma'']"
    by (simp only: catalog_names)
  then show ?thesis
  proof (cases rule: six_cases)
    case 1
    with assms(2) show ?thesis by (simp add: unsupported_normal spec_supported_types_def)
  next
    case 2
    with assms(2) show ?thesis by (simp add: unsupported_uniform spec_supported_types_def)
  next
    case 3
    with assms(2) show ?thesis by (simp add: unsupported_binomial spec_supported_types_def)
  next
    case 4
    with assms(2) show ?thesis by (simp add: unsupported_poisson spec_supported_types_def)
  next
    case 5
    with assms(2) show ?thesis by (simp add: unsupported_exponential spec_supported_types_def)
  next
    case 6
    with assms(2) show ?thesis by (simp add: unsupported_gamma spec_supported_types_def)
  qed
qed

text \<open>
  Claim C9. For valid gamma parameters, a request to calculate with an evaluation type
  other than \<open>pdf\<close> is answered with status 400 and no routine is called, and so
  is a request to generate a gamma sample (every request to generate for gamma has status
  400); and for every distribution of the catalogue, a request for an evaluation type
  that the specification's table does not list for it is answered with status 400,
  whatever the numeric routines are.
\<close>

theorem unsupported_requests_rejected:
  "(calc_parameters body = Some parameters \<and> calc_x body = Some x
      \<and> parameters ''shape'' = Some a \<and> parameters ''rate'' = Some b \<and> 0 < a \<and> 0 < b
      \<and> requested_type body \<noteq> ''pdf'' \<longrightarrow>
      calculate_route lib ''gamma'' body
        = Inl (400, ''Only PDF calculation available for gamma distribution''))
   \<and> (gen_parameters gbody = Some parameters
      \<and> parameters ''shape'' = Some a \<and> parameters ''rate'' = Some b \<and> 0 < a \<and> 0 < b
      \<and> 0 < requested_count gbody \<longrightarrow>
      generate_route glib ''gamma'' gbody
        = Inl (400, ''Generation not implemented for this distribution''))
   \<and> status_of (generate_route glib ''gamma'' gbody) = 400
   \<and> (name \<in> set (map d_name availableDistributions)
      \<and> requested_type body \<notin> set (spec_supported_types name) \<longrightarrow>
      status_of (calculate_route lib name body) = 400)"
  using calculate_gamma_rejects [of body parameters x a b lib]
    generate_gamma_rejects [of gbody parameters a b glib]
    generate_gamma_status [of glib gbody]
    unsupported_type_status [of name body lib]
  by blast

theorem unsupported_requests_rejected_witness:
  "calculate_route
      \<lparr>call_normalPDF = \<lambda>x mu sigma. 0 :: real, call_normalCDF = \<lambda>x mu sigma. 0,
       call_uniformPDF = \<lambda>x a b. 0, call_uniformCDF = \<lambda>x a b. 0,
       call_binomialPMF = \<lambda>k n p. 0, call_binomialCDF = \<lambda>k n p. 0,
       call_poissonPMF = \<lambda>k l. 0, call_poissonCDF = \<lambda>k l. 0,
       call_exponentialPDF = \<lambda>x l. 0, call_exponentialCDF = \<lambda>x l. 0,
       call_gammaPDF = \<lambda>x shape rate. 0\<rparr>
      ''gamma''
      \<lparr>calc_parameters = Some [''shape'' \<mapsto> 2, ''rate'' \<mapsto> 1], calc_x = Some 1,
       calc_type = Some ''cdf''\<rparr>
     = Inl (400, ''Only PDF calculation available for gamma distribution'')
   \<and> generate_route
      \<lparr>call_generateNormal = \<lambda>mu sigma count. [] :: real list,
       call_generateUniform = \<lambda>a b count. [], call_generateBinomial = \<lambda>n p count. [],
       call_generatePoisson = \<lambda>l count. [], call_generateExponential = \<lambda>l count. [],
       call_calculateStats = \<lambda>data. length data\<rparr>
      ''gamma''
      \<lparr>gen_parameters = Some [''shape'' \<mapsto> 2, ''rate'' \<mapsto> 1], gen_count = Some 10\<rparr>
     = Inl (400, ''Generation not implemented for this distribution'')
   \<and> status_of (calculate_route
      \<lparr>call_normalPDF = \<lambda>x mu sigma. 0 :: real, call_normalCDF = \<lambda>x mu sigma. 0,
       call_uniformPDF = \<lambda>x a b. 0, call_uniformCDF = \<lambda>x a b. 0,
       call_binomialPMF = \<lambda>k n p. 0, call_binomialCDF = \<lambda>k n p. 0,
       call_poissonPMF = \<lambda>k l. 0, call_poissonCDF = \<lambda>k l. 0,
       call_exponentialPDF = \<lambda>x l. 0, call_exponentialCDF = \<lambda>x l. 0,
       call_gammaPDF = \<lambda>x shape rate. 0\<rparr>
      ''gamma''
      \<lparr>calc_parameters = Some [''shape'' \<mapsto> 2, ''rate'' \<mapsto> 1], calc_x = Some 1,
       calc_type = Some ''cdf''\<rparr>) = 400"
proof -
  let ?ps = "[''shape'' \<mapsto> 2 :: real, ''rate'' \<mapsto> 1]"
  let ?body = "\<lparr>calc_parameters = Some ?ps, calc_x = Some 1, calc_type = Some ''cdf''\<rparr>"
  let ?gbody = "\<lparr>gen_parameters = Some ?ps, gen_count = Some 10\<rparr>"
  let ?lib = "\<lparr>call_normalPDF = \<lambda>x mu sigma. 0 :: real, call_normalCDF = \<lambda>x mu sigma. 0,
       call_uniformPDF = \<lambda>x a b. 0, call_uniformCDF = \<lambda>x a b. 0,
       call_binomialPMF = \<lambda>k n p. 0, call_binomialCDF = \<lambda>k n p. 0,
       call_poissonPMF = \<lambda>k l. 0, call_poissonCDF = \<lambda>k l. 0,
       call_exponentialPDF = \<lambda>x l. 0, call_exponentialCDF = \<lambda>x l. 0,
       call_gammaPDF = \<lambda>x shape rate. 0\<rparr>"
  let ?glib = "\<lparr>call_generateNormal = \<lambda>mu sigma count. [] :: real list,
       call_generateUniform = \<lambda>a b count. [], call_generateBinomial = \<lambda>n p count. [],
       call_generatePoisson = \<lambda>l count. [], call_generateExponential = \<lambda>l count. [],
       call_calculateStats = \<lambda>data. length data\<rparr>"
  have h1: "calc_parameters ?body = Some ?ps \<and> calc_x ?body = Some 1
      \<and> ?ps ''shape'' = Some 2 \<and> ?ps ''rate'' = Some 1 \<and> (0 :: real) < 2 \<and> (0 :: real) < 1
      \<and> requested_type ?body \<noteq> ''pdf''"
    by (simp add: requested_type_def)
  have h2: "gen_parameters ?gbody = Some ?ps
      \<and> ?ps ''shape'' = Some 2 \<and> ?ps ''rate'' = Some 1 \<and> (0 :: real) < 2 \<and> (0 :: real) < 1
      \<and> 0 < requested_count ?gbody"
    by (simp add: requested_count_def)
  have h3: "''gamma'' \<in> set (map d_name availableDistributions)
      \<and> requested_type ?body \<notin> set (spec_supported_types ''gamma'')"
    by (simp add: catalog_names spec_supported_types_def requested_type_def)
  from h1 h2 h3
    unsupported_requests_rejected [of ?body ?ps 1 2 1 ?lib ?gbody ?glib "''gamma''"]
  show ?thesis by blast
qed

end
